theory Spec2Isabelle
  imports Complex_Main "HOL-Library.Sublist"
begin

section \<open>JavaScript values used by the store and the import pipeline\<close>

text \<open>
  A JavaScript string is a sequence of UTF-16 code units; it is modelled as the list of
  its code units. \<open>ascii\<close> turns an ASCII literal into that form, so that
  \<open>ascii ''Genzai''\<close> is the string \<^verbatim>\<open>'Genzai'\<close> of the source.

  A number field of the store is modelled as a mathematical integer. This is exact for
  the integer values the store holds (identifiers, capacities, amounts in yen) as long as
  they stay within the safe-integer range; fractional numbers, infinities and NaN stored
  in a record are outside the model. Where an operation of the source can produce NaN
  (\<open>parseInt\<close>, the time value of a \<open>Date\<close>), its result is an \<open>int option\<close> and \<open>None\<close>
  is NaN. A number in a spreadsheet cell is a finite double, possibly with a fraction; it
  is modelled as the rational number it is.
\<close>

type_synonym jstring = "nat list"

definition ascii :: "string \<Rightarrow> jstring" where
  "ascii s = map of_char s"

text \<open>\<open>String.prototype.includes\<close>: the needle occurs as a contiguous run of code units.\<close>

fun includes_js :: "jstring \<Rightarrow> jstring \<Rightarrow> bool" where
  "includes_js [] n = (n = [])"
| "includes_js (c # cs) n = (prefix n (c # cs) \<or> includes_js cs n)"

text \<open>The white space and line terminator code units that \<open>trim\<close> and \<open>parseInt\<close> skip.\<close>

definition isWhiteSpace :: "nat \<Rightarrow> bool" where
  "isWhiteSpace c \<longleftrightarrow>
     c \<in> {0x09, 0x0A, 0x0B, 0x0C, 0x0D, 0x20, 0xA0, 0x1680, 0x2028, 0x2029, 0x202F,
           0x205F, 0x3000, 0xFEFF} \<or> (0x2000 \<le> c \<and> c \<le> 0x200A)"

definition trimStart :: "jstring \<Rightarrow> jstring" where
  "trimStart s = dropWhile isWhiteSpace s"

definition trim :: "jstring \<Rightarrow> jstring" where
  "trim s = rev (dropWhile isWhiteSpace (rev (dropWhile isWhiteSpace s)))"

text \<open>\<open>String(n)\<close> for a safe integer \<open>n\<close>: its decimal digits, with a leading minus sign.\<close>

fun decimal :: "nat \<Rightarrow> jstring" where
  "decimal n = (if n < 10 then [48 + n] else decimal (n div 10) @ [48 + n mod 10])"

declare decimal.simps [simp del]

definition String_of_int :: "int \<Rightarrow> jstring" where
  "String_of_int i = (if i < 0 then 45 # decimal (nat (- i)) else decimal (nat i))"

text \<open>
  What the JavaScript engine does with numbers that are not safe integers is not fixed by
  the source; it is taken as a parameter. \<open>numberToString x\<close> is what \<open>String\<close> prints for
  a number \<open>x\<close> that is not a safe integer: a number with a fraction, or of magnitude
  \<open>2^53\<close> and more (the shortest digits that read back, in exponent form from \<open>10^21\<close>
  on). \<open>toNumber m\<close> is the magnitude of the double the engine makes of an integer
  \<open>m \<ge> 2^53\<close> that \<open>parseInt\<close> has read: the nearest double, which is again an integer,
  approximated at the engine's option when there are more than 20 digits. A run of
  digits so long that this double is infinite is outside the model, as an infinite field
  of the store is.
\<close>

record engine =
  numberToString :: "rat \<Rightarrow> jstring"
  toNumber :: "nat \<Rightarrow> nat"

text \<open>\<open>Number.isSafeInteger\<close>: an integer of magnitude below \<open>2^53\<close>.\<close>

definition isSafeInteger :: "rat \<Rightarrow> bool" where
  "isSafeInteger x \<longleftrightarrow> of_int \<lfloor>x\<rfloor> = x \<and> \<bar>x\<bar> < 2 ^ 53"

text \<open>
  \<open>parseInt(s)\<close> without a radix: leading white space is skipped, one sign is read, a
  \<open>0x\<close> or \<open>0X\<close> prefix selects radix 16, and the longest run of digits of the radix is
  read as an integer. No digit at all gives NaN (\<open>None\<close>). The result is the double of
  the integer read, with the sign: the integer itself below \<open>2^53\<close>, rounded by the engine
  otherwise.
\<close>

definition digitVal :: "nat \<Rightarrow> nat \<Rightarrow> nat option" where
  "digitVal radix c =
     (let v = (if 48 \<le> c \<and> c \<le> 57 then Some (c - 48)
               else if 97 \<le> c \<and> c \<le> 122 then Some (c - 87)
               else if 65 \<le> c \<and> c \<le> 90 then Some (c - 55)
               else None)
      in case v of None \<Rightarrow> None | Some d \<Rightarrow> if d < radix then Some d else None)"

fun readDigits :: "nat \<Rightarrow> nat \<Rightarrow> jstring \<Rightarrow> nat" where
  "readDigits radix acc [] = acc"
| "readDigits radix acc (c # cs) =
     (case digitVal radix c of
        None \<Rightarrow> acc
      | Some d \<Rightarrow> readDigits radix (acc * radix + d) cs)"

definition parseDigits :: "nat \<Rightarrow> jstring \<Rightarrow> nat option" where
  "parseDigits radix s =
     (case s of
        [] \<Rightarrow> None
      | c # cs \<Rightarrow> (case digitVal radix c of
                    None \<Rightarrow> None
                  | Some d \<Rightarrow> Some (readDigits radix 0 (c # cs))))"

definition parseInt :: "engine \<Rightarrow> jstring \<Rightarrow> int option" where
  "parseInt eng input =
     (let s = trimStart input;
          neg = (s \<noteq> [] \<and> hd s = 45);
          s1 = (if s \<noteq> [] \<and> (hd s = 43 \<or> hd s = 45) then tl s else s);
          hex = (case s1 of a # b # _ \<Rightarrow> a = 48 \<and> (b = 120 \<or> b = 88) | _ \<Rightarrow> False);
          r = (if hex then parseDigits 16 (drop 2 s1) else parseDigits 10 s1)
      in case r of
           None \<Rightarrow> None
         | Some m \<Rightarrow>
             (let mag = (if m < 2 ^ 53 then m else toNumber eng m)
              in Some (if neg then - int mag else int mag)))"

text \<open>\<open>x || d\<close> on the result of \<open>parseInt\<close>: NaN and 0 are falsy.\<close>

definition num_or :: "int option \<Rightarrow> int \<Rightarrow> int" where
  "num_or x d = (case x of None \<Rightarrow> d | Some n \<Rightarrow> if n = 0 then d else n)"

text \<open>
  An untyped cell of a spreadsheet row (the schema's \<open>z.any()\<close>), and a row as the object
  \<open>sheet_to_json\<close> builds: a finite mapping from column label to cell. Reading a label the
  row does not have gives \<open>undefined\<close>.
\<close>

datatype cell = Undefined | Null | Bool bool | Num rat | Str jstring

type_synonym row = "(jstring \<times> cell) list"

definition get :: "row \<Rightarrow> jstring \<Rightarrow> cell" where
  "get r k = (case map_of r k of None \<Rightarrow> Undefined | Some c \<Rightarrow> c)"

definition truthy :: "cell \<Rightarrow> bool" where
  "truthy c =
     (case c of
        Undefined \<Rightarrow> False
      | Null \<Rightarrow> False
      | Bool b \<Rightarrow> b
      | Num n \<Rightarrow> n \<noteq> 0
      | Str s \<Rightarrow> s \<noteq> [])"

text \<open>\<open>a || b\<close> on cells.\<close>

definition cell_or :: "cell \<Rightarrow> cell \<Rightarrow> cell" where
  "cell_or a b = (if truthy a then a else b)"

text \<open>
  \<open>String(c)\<close>. A safe integer is printed in decimal digits; the engine prints every other
  number.
\<close>

definition String :: "engine \<Rightarrow> cell \<Rightarrow> jstring" where
  "String eng c =
     (case c of
        Undefined \<Rightarrow> ascii ''undefined''
      | Null \<Rightarrow> ascii ''null''
      | Bool b \<Rightarrow> (if b then ascii ''true'' else ascii ''false'')
      | Num x \<Rightarrow> (if isSafeInteger x then String_of_int \<lfloor>x\<rfloor> else numberToString eng x)
      | Str s \<Rightarrow> s)"

definition isString :: "cell \<Rightarrow> bool" where
  "isString c = (case c of Str _ \<Rightarrow> True | _ \<Rightarrow> False)"

text \<open>A cell the schema has checked to be a string or absent, read as a string.\<close>

definition strOf :: "cell \<Rightarrow> jstring" where
  "strOf c = (case c of Str s \<Rightarrow> s | _ \<Rightarrow> [])"

section \<open>The canonical store (types/database.ts)\<close>

text \<open>
  The records follow the interfaces \<open>Property\<close>, \<open>Tenant\<close>, \<open>Employee\<close>, \<open>Config\<close> and
  \<open>Database\<close>. A field \<open>f\<close> of \<open>Property\<close> is \<open>p_f\<close>, of \<open>Tenant\<close> \<open>t_f\<close>, of
  \<open>Employee\<close> \<open>e_f\<close>; an optional field is an \<open>option\<close>. The optional metadata stamps
  \<open>created_at\<close> and \<open>updated_at\<close> are left out: no operation below reads or writes them.
\<close>

record property =
  p_id :: int
  p_name :: jstring
  p_room_number :: "jstring option"
  p_postal_code :: "jstring option"
  p_address_auto :: jstring
  p_address_detail :: "jstring option"
  p_address :: jstring
  p_type :: jstring
  p_capacity :: int
  p_rent_cost :: int
  p_rent_price_uns :: int
  p_parking_cost :: int
  p_manager_name :: "jstring option"
  p_manager_phone :: "jstring option"
  p_contract_start :: jstring
  p_contract_end :: "jstring option"

datatype status = active | inactive

record tenant =
  t_id :: int
  t_employee_id :: jstring
  t_name :: jstring
  t_name_kana :: jstring
  t_property_id :: int
  t_rent_contribution :: int
  t_parking_fee :: int
  t_entry_date :: jstring
  t_status :: status

record employee =
  e_id :: jstring
  e_name :: jstring
  e_name_kana :: jstring
  e_company :: jstring
  e_full_data :: "row option"

record config =
  companyName :: jstring
  closingDay :: nat

record database =
  properties :: "property list"
  tenants :: "tenant list"
  employees :: "employee list"
  config :: config
  version :: jstring
  last_sync :: jstring

text \<open>\<open>xs.find(pred)\<close> is used by the source only for its truthiness.\<close>

definition found :: "('a \<Rightarrow> bool) \<Rightarrow> 'a list \<Rightarrow> bool" where
  "found pred xs = (find pred xs \<noteq> None)"

section \<open>CRUD operations of the store (hooks/useDatabase.ts)\<close>

text \<open>
  Every mutator returns its result object and the store after the call. The only write
  is \<open>setDb\<close> with an updater function, which is given the store of that moment,
  \<open>prev\<close>; a mutator that returns early leaves it as it was. \<open>deleteProperty\<close> and
  \<open>addEmployees\<close> read nothing but \<open>prev\<close>. The guards of \<open>addTenant\<close> are outside the
  updater: they read \<open>db\<close>, the store as the render that made the callback saw it, and
  two calls made from one render read the same \<open>db\<close>.
\<close>

datatype crud_result =
    Success
  | SuccessCount nat
  | Failure jstring
  | FailureErrors "(jstring \<times> jstring option) list"

definition deleteProperty :: "int \<Rightarrow> database \<Rightarrow> crud_result \<times> database" where
  "deleteProperty i prev =
     (Success,
      prev\<lparr>properties := filter (\<lambda>p. p_id p \<noteq> i) (properties prev),
           tenants := filter (\<lambda>t. t_property_id t \<noteq> i) (tenants prev)\<rparr>)"

definition addEmployees :: "employee list \<Rightarrow> database \<Rightarrow> crud_result \<times> database" where
  "addEmployees emps prev =
     (SuccessCount (length emps),
      prev\<lparr>employees :=
             employees prev
             @ filter (\<lambda>emp. \<not> found (\<lambda>e. e_id e = e_id emp) (employees prev)) emps\<rparr>)"

text \<open>
  \<open>TenantSchema\<close> of utils/validators.ts, on a typed tenant. Each issue is the field and
  the message; \<open>None\<close> stands for the schema library's default message where the schema
  gives none. The library's ISO date-time check is the parameter \<open>isDatetime\<close>.
\<close>

definition validateTenant :: "(jstring \<Rightarrow> bool) \<Rightarrow> tenant \<Rightarrow> (jstring \<times> jstring option) list" where
  "validateTenant isDatetime t =
     (if length (t_employee_id t) < 1
        then [(ascii ''employee_id'', Some (ascii ''ID empleado requerido''))] else [])
     @ (if length (t_employee_id t) > 50 then [(ascii ''employee_id'', None)] else [])
     @ (if length (t_name t) < 1
        then [(ascii ''name'', Some (ascii ''Nombre requerido''))] else [])
     @ (if length (t_name_kana t) < 1
        then [(ascii ''name_kana'', Some (ascii ''Nombre en Kana requerido''))] else [])
     @ (if \<not> t_property_id t > 0
        then [(ascii ''property_id'', Some (ascii ''ID propiedad inv'' @ [0xE1] @ ascii ''lido''))]
        else [])
     @ (if t_rent_contribution t < 0
        then [(ascii ''rent_contribution'', Some (ascii ''Renta no puede ser negativa''))] else [])
     @ (if t_parking_fee t < 0
        then [(ascii ''parking_fee'', Some (ascii ''Parking no puede ser negativo''))] else [])
     @ (if \<not> isDatetime (t_entry_date t) then [(ascii ''entry_date'', None)] else [])"

definition addTenant ::
  "(jstring \<Rightarrow> bool) \<Rightarrow> int \<Rightarrow> tenant \<Rightarrow> database \<Rightarrow> database \<Rightarrow> crud_result \<times> database" where
  "addTenant isDatetime now tenant db prev =
     (if \<not> found (\<lambda>p. p_id p = t_property_id tenant) (properties db)
        then (Failure (ascii ''Propiedad no existe''), prev)
      else if found (\<lambda>t. t_employee_id t = t_employee_id tenant \<and> t_status t = active)
                (tenants db)
        then (Failure (ascii ''ID empleado ya asignado''), prev)
      else (case validateTenant isDatetime (tenant\<lparr>t_id := now\<rparr>) of
              [] \<Rightarrow> (Success, prev\<lparr>tenants := tenants prev @ [tenant\<lparr>t_id := now\<rparr>]\<rparr>)
            | e # es \<Rightarrow> (FailureErrors (e # es), prev)))"

definition succeeded :: "crud_result \<Rightarrow> bool" where
  "succeeded r = (case r of Success \<Rightarrow> True | SuccessCount _ \<Rightarrow> True | _ \<Rightarrow> False)"

definition activeEmployeeIds :: "database \<Rightarrow> jstring list" where
  "activeEmployeeIds db = map t_employee_id (filter (\<lambda>t. t_status t = active) (tenants db))"

text \<open>\<open>INITIAL_DB\<close>; its \<open>last_sync\<close> is the time the module was loaded.\<close>

definition DEFAULT_CONFIG :: config where
  "DEFAULT_CONFIG = \<lparr>companyName = ascii ''UNS-KIKAKU'', closingDay = 0\<rparr>"

definition INITIAL_DB :: "jstring \<Rightarrow> database" where
  "INITIAL_DB loaded =
     \<lparr>properties = [], tenants = [], employees = [], config = DEFAULT_CONFIG,
      version = ascii ''7.0'', last_sync = loaded\<rparr>"

section \<open>The referential integrity checker (utils/validators.ts)\<close>

text \<open>
  \<open>validateDataIntegrity(db)\<close> reads \<open>db.properties\<close> and \<open>db.tenants\<close> only; the import
  pipeline calls it on an object that is not a whole store. The two \<open>for\<close> loops push
  onto one error list and are folds over the tenants and over the properties.
\<close>

record integrity_error =
  ie_type :: jstring
  ie_message :: jstring

record integrity_check =
  valid :: bool
  ic_errors :: "integrity_error list"

definition fkError :: "tenant \<Rightarrow> integrity_error" where
  "fkError tenant =
     \<lparr>ie_type = ascii ''FK_ERROR'',
      ie_message = ascii ''Inquilino '' @ [34] @ t_name tenant @ [34]
        @ ascii '' asignado a propiedad inexistente (ID: ''
        @ String_of_int (t_property_id tenant) @ ascii '')''\<rparr>"

definition capacityError :: "property \<Rightarrow> nat \<Rightarrow> integrity_error" where
  "capacityError property tenantCount =
     \<lparr>ie_type = ascii ''CAPACITY_ERROR'',
      ie_message = ascii ''Propiedad '' @ [34] @ p_name property @ [34]
        @ ascii '' excede capacidad ('' @ String_of_int (int tenantCount) @ ascii ''/''
        @ String_of_int (p_capacity property) @ ascii '')''\<rparr>"

definition checkTenant ::
  "property list \<Rightarrow> integrity_error list \<Rightarrow> tenant \<Rightarrow> integrity_error list" where
  "checkTenant props errors tenant =
     (if \<not> found (\<lambda>p. p_id p = t_property_id tenant) props
      then errors @ [fkError tenant] else errors)"

definition checkProperty ::
  "tenant list \<Rightarrow> integrity_error list \<Rightarrow> property \<Rightarrow> integrity_error list" where
  "checkProperty tens errors property =
     (let tenantCount =
            length (filter (\<lambda>t. t_property_id t = p_id property \<and> t_status t = active) tens)
      in if int tenantCount > p_capacity property
         then errors @ [capacityError property tenantCount] else errors)"

definition validateDataIntegrity :: "property list \<Rightarrow> tenant list \<Rightarrow> integrity_check" where
  "validateDataIntegrity props tens =
     (let errors = foldl (checkProperty tens) (foldl (checkTenant props) [] tens) props
      in \<lparr>valid = (length errors = 0), ic_errors = errors\<rparr>)"

definition activeCount :: "tenant list \<Rightarrow> property \<Rightarrow> nat" where
  "activeCount tens p =
     length (filter (\<lambda>t. t_property_id t = p_id p \<and> t_status t = active) tens)"

section \<open>Contract dates (shared property utilities, hooks/useDatabase.ts)\<close>

text \<open>
  \<open>new Date(s)\<close> is the host's date parser; it is the parameter \<open>parse\<close>, which gives the
  time value in milliseconds, or \<open>None\<close> for an invalid date (time value NaN). \<open>now\<close> is
  the time value of \<open>new Date()\<close>; one evaluation reads the clock as one instant.
  Comparing two dates with \<open>>\<close> compares their time values, and every comparison with
  NaN is false.
\<close>

text \<open>\<open>!p.contract_end\<close>: the field is absent or the empty string.\<close>

definition noContractEnd :: "property \<Rightarrow> bool" where
  "noContractEnd p = (case p_contract_end p of None \<Rightarrow> True | Some s \<Rightarrow> s = [])"

text \<open>\<open>new Date(p.contract_end)\<close>.\<close>

definition endDate :: "(jstring \<Rightarrow> int option) \<Rightarrow> property \<Rightarrow> int option" where
  "endDate parse p = (case p_contract_end p of None \<Rightarrow> None | Some s \<Rightarrow> parse s)"

text \<open>\<open>d > new Date()\<close>.\<close>

definition after :: "int option \<Rightarrow> int \<Rightarrow> bool" where
  "after d now = (case d of None \<Rightarrow> False | Some t \<Rightarrow> t > now)"

definition isPropertyActive :: "(jstring \<Rightarrow> int option) \<Rightarrow> int \<Rightarrow> property \<Rightarrow> bool" where
  "isPropertyActive parse now p =
     (if noContractEnd p then True
      else let d = endDate parse p in d = None \<or> after d now)"

definition getPropertiesByStatus ::
  "(jstring \<Rightarrow> int option) \<Rightarrow> int \<Rightarrow> bool \<Rightarrow> database \<Rightarrow> property list" where
  "getPropertiesByStatus parse now act db =
     filter (\<lambda>p. if noContractEnd p then act
                 else let isActive = after (endDate parse p) now
                      in if act then isActive else \<not> isActive)
       (properties db)"

section \<open>The metrics of the dashboard (components/dashboard/Dashboard.tsx)\<close>

datatype alert_type = warning | danger

datatype severity = low | medium | high

record AlertItem =
  a_type :: alert_type
  msg :: jstring
  a_severity :: "severity option"
  a_timestamp :: "jstring option"

text \<open>
  The metrics the \<open>useMemo\<close> of \<open>Dashboard\<close> returns, without \<open>occupancyRate\<close>, a
  rounded floating-point quotient. A \<open>property_id\<close> of the store is a number, so the
  test \<open>t.property_id !== null\<close> of \<open>occupiedCount\<close> is true.
\<close>

record metrics =
  totalProperties :: nat
  occupiedCount :: nat
  totalCapacity :: int
  profit :: int
  totalCollected :: int
  totalPropCost :: int
  totalTargetUNS :: int
  alerts :: "AlertItem list"

text \<open>\<open>x || 0\<close> on a number of the store.\<close>

definition or0 :: "int \<Rightarrow> int" where
  "or0 x = (if x = 0 then 0 else x)"

definition activeProps :: "(jstring \<Rightarrow> int option) \<Rightarrow> int \<Rightarrow> database \<Rightarrow> property list" where
  "activeProps parse now db =
     filter (\<lambda>p. noContractEnd p \<or> after (endDate parse p) now) (properties db)"

text \<open>
  The body of \<open>activeProps.forEach\<close>: \<open>Math.ceil\<close> of the distance in days, exact on
  integers; with an invalid end date the distance is NaN and \<open>diffDays <= 60\<close> is false.
\<close>

definition contractAlert ::
  "(jstring \<Rightarrow> int option) \<Rightarrow> int \<Rightarrow> jstring \<Rightarrow> AlertItem list \<Rightarrow> property \<Rightarrow> AlertItem list" where
  "contractAlert parse now stamp alertList p =
     (if \<not> noContractEnd p then
        (case endDate parse p of
           None \<Rightarrow> alertList
         | Some e \<Rightarrow>
             (let diffTime = \<bar>e - now\<bar>;
                  diffDays = - ((- diffTime) div (1000 * 60 * 60 * 24))
              in if diffDays \<le> 60
                 then alertList @
                   [\<lparr>a_type = warning,
                     msg = [0xD83D, 0xDCCB] @ ascii '' Contrato de '' @ p_name p
                           @ ascii '' vence en '' @ String_of_int diffDays
                           @ ascii '' d'' @ [0xED] @ ascii ''as'',
                     a_severity = Some (if diffDays \<le> 30 then high else medium),
                     a_timestamp = Some stamp\<rparr>]
                 else alertList))
      else alertList)"

definition zeroRentTenants :: "database \<Rightarrow> tenant list" where
  "zeroRentTenants db =
     filter (\<lambda>t. t_status t = active \<and> t_rent_contribution t = 0) (tenants db)"

definition zeroRentAlert :: "jstring \<Rightarrow> nat \<Rightarrow> AlertItem" where
  "zeroRentAlert stamp n =
     \<lparr>a_type = danger,
      msg = [0x26A0, 0xFE0F] @ ascii '' '' @ String_of_int (int n)
            @ ascii '' inquilino(s) sin renta configurada'',
      a_severity = Some high,
      a_timestamp = Some stamp\<rparr>"

definition dashboardMetrics ::
  "(jstring \<Rightarrow> int option) \<Rightarrow> int \<Rightarrow> jstring \<Rightarrow> database \<Rightarrow> metrics" where
  "dashboardMetrics parse now stamp db =
     (let act = activeProps parse now db;
          occupied = length (filter (\<lambda>t. t_status t = active) (tenants db));
          capacity = foldl (\<lambda>a b. a + or0 (p_capacity b)) 0 act;
          totalRentCollected =
            foldl (\<lambda>acc t. acc + (if t_status t = active then t_rent_contribution t else 0))
              0 (tenants db);
          totalParkingCollected =
            foldl (\<lambda>acc t. acc + (if t_status t = active then t_parking_fee t else 0))
              0 (tenants db);
          collected = totalRentCollected + totalParkingCollected;
          propCost = foldl (\<lambda>acc p. acc + or0 (p_rent_cost p) + or0 (p_parking_cost p)) 0 act;
          targetUNS = foldl (\<lambda>acc p. acc + or0 (p_rent_price_uns p)) 0 act;
          alerts1 = foldl (contractAlert parse now stamp) [] act;
          zero = zeroRentTenants db;
          alerts2 = (if length zero > 0 then alerts1 @ [zeroRentAlert stamp (length zero)]
                     else alerts1)
      in \<lparr>totalProperties = length act,
          occupiedCount = occupied,
          totalCapacity = capacity,
          profit = collected - propCost,
          totalCollected = collected,
          totalPropCost = propCost,
          totalTargetUNS = targetUNS,
          alerts = alerts2\<rparr>)"

section \<open>The rent allocation\<close>

text \<open>
  Modelled from the spec: \<open>distributeEvenly\<close> is not among the source files;
  RentManager.tsx only declares the callback \<open>onDistributeEvenly\<close> and calls it from a
  button. The definition follows section 4.6 of the specification: it is given the
  property and its active tenants in store order; \<open>base\<close> is the floor of
  \<open>rent_price_uns / tenantCount\<close> and \<open>remainder\<close> is \<open>rent_price_uns mod tenantCount\<close>; the
  first tenant is assigned \<open>base + remainder\<close> and every other tenant \<open>base\<close>; with no
  active tenant nothing is changed and an error is reported.
\<close>

definition distributeEvenly :: "property \<Rightarrow> tenant list \<Rightarrow> jstring + tenant list" where
  "distributeEvenly property activeTenants =
     (case activeTenants of
        [] \<Rightarrow> Inl (ascii ''nothing to distribute'')
      | first # others \<Rightarrow>
          (let tenantCount = int (length activeTenants);
               base = p_rent_price_uns property div tenantCount;
               remainder = p_rent_price_uns property mod tenantCount
           in Inr (first\<lparr>t_rent_contribution := base + remainder\<rparr>
                   # map (\<lambda>t. t\<lparr>t_rent_contribution := base\<rparr>) others)))"

section \<open>The import pipeline (hooks/useExcelImport.ts)\<close>

subsection \<open>Column labels and sheet-name markers\<close>

text \<open>
  The labels and markers of the source are Japanese strings; each is given by its UTF-16
  code units, with its reading as the name.
\<close>

definition lbl_apato :: jstring where \<comment> \<open>half-width katakana "apaato" (apartment)\<close>
  "lbl_apato = [0xFF71, 0xFF8A, 0xFF9F, 0xFF70, 0xFF84]"

definition lbl_bukkenmei :: jstring where \<comment> \<open>"bukken-mei" (property name)\<close>
  "lbl_bukkenmei = [0x7269, 0x4EF6, 0x540D]"

definition lbl_jusho :: jstring where \<comment> \<open>"juusho" (address)\<close>
  "lbl_jusho = [0x4F4F, 0x6240]"

definition lbl_nyukyo_ninzu :: jstring where \<comment> \<open>"nyuukyo ninzuu" (number of residents)\<close>
  "lbl_nyukyo_ninzu = [0x5165, 0x5C45, 0x4EBA, 0x6570]"

definition lbl_yachin :: jstring where \<comment> \<open>"yachin" (rent)\<close>
  "lbl_yachin = [0x5BB6, 0x8CC3]"

definition lbl_usn_yachin :: jstring where \<comment> \<open>"USN yachin" (rent charged)\<close>
  "lbl_usn_yachin = [0x55, 0x53, 0x4E, 0x5BB6, 0x8CC3]"

definition lbl_chushajodai :: jstring where \<comment> \<open>"chuushajou-dai" (parking cost)\<close>
  "lbl_chushajodai = [0x99D0, 0x8ECA, 0x5834, 0x4EE3]"

definition lbl_chushajo :: jstring where \<comment> \<open>"chuushajou" (parking)\<close>
  "lbl_chushajo = [0x99D0, 0x8ECA, 0x5834]"

definition lbl_keiyaku_kaishibi :: jstring where \<comment> \<open>"keiyaku kaishi-bi" (contract start)\<close>
  "lbl_keiyaku_kaishibi = [0x5951, 0x7D04, 0x958B, 0x59CB, 0x65E5]"

definition lbl_keiyaku_shuryo :: jstring where \<comment> \<open>"keiyaku shuuryou" (contract end)\<close>
  "lbl_keiyaku_shuryo = [0x5951, 0x7D04, 0x7D42, 0x4E86]"

definition lbl_kana :: jstring where \<comment> \<open>katakana "kana"\<close>
  "lbl_kana = [0x30AB, 0x30CA]"

definition lbl_nyukyo :: jstring where \<comment> \<open>"nyuukyo" (moving in); also a sheet marker\<close>
  "lbl_nyukyo = [0x5165, 0x5C45]"

definition lbl_shain_no :: jstring where \<comment> \<open>"shain No" (employee number)\<close>
  "lbl_shain_no = [0x793E, 0x54E1, 0x4E, 0x6F]"

definition lbl_shimei :: jstring where \<comment> \<open>"shimei" (full name)\<close>
  "lbl_shimei = [0x6C0F, 0x540D]"

definition lbl_hakensaki :: jstring where \<comment> \<open>"haken-saki" (client company)\<close>
  "lbl_hakensaki = [0x6D3E, 0x9063, 0x5148]"

definition tok_shain :: jstring where \<comment> \<open>"shain" (employee)\<close>
  "tok_shain = [0x793E, 0x54E1]"

definition tok_kaisharyo_joho :: jstring where \<comment> \<open>"kaisha-ryou jouhou" (company housing data)\<close>
  "tok_kaisharyo_joho = [0x4F1A, 0x793E, 0x5BEE, 0x60C5, 0x5831]"

definition tok_bukken :: jstring where \<comment> \<open>"bukken" (property)\<close>
  "tok_bukken = [0x7269, 0x4EF6]"

definition tok_nyukyosha_ichiran :: jstring where \<comment> \<open>"nyuukyo-sha ichiran" (list of residents)\<close>
  "tok_nyukyosha_ichiran = [0x5165, 0x5C45, 0x8005, 0x4E00, 0x89A7]"

subsection \<open>Row schemas (utils/validators.ts)\<close>

text \<open>
  \<open>safeParse\<close> of the three row schemas succeeds exactly when every declared column
  has a value of its type: \<open>z.string()\<close> needs a string, \<open>z.string().optional()\<close> a string
  or \<open>undefined\<close>, \<open>z.any()\<close> accepts everything.
\<close>

definition optionalString :: "cell \<Rightarrow> bool" where
  "optionalString c = (c = Undefined \<or> isString c)"

definition validateExcelPropertyRow :: "row \<Rightarrow> bool" where
  "validateExcelPropertyRow r \<longleftrightarrow>
     isString (get r lbl_apato) \<and> optionalString (get r lbl_jusho)
     \<and> optionalString (get r lbl_keiyaku_kaishibi) \<and> optionalString (get r lbl_keiyaku_shuryo)"

definition validateExcelTenantRow :: "row \<Rightarrow> bool" where
  "validateExcelTenantRow r \<longleftrightarrow>
     isString (get r lbl_apato) \<and> isString (get r lbl_kana) \<and> optionalString (get r lbl_nyukyo)"

definition validateExcelEmployeeRow :: "row \<Rightarrow> bool" where
  "validateExcelEmployeeRow r \<longleftrightarrow>
     isString (get r lbl_shimei) \<and> isString (get r lbl_kana)
     \<and> optionalString (get r lbl_hakensaki)"

subsection \<open>Results\<close>

record import_error =
  err_row :: nat
  err_field :: jstring
  err_message :: jstring

datatype import_type = Employees | Rent_management

record import_data =
  data_properties :: "property list option"
  data_tenants :: "tenant list option"
  data_employees :: "employee list option"

record ImportResult =
  success :: bool
  import_type :: "import_type option"
  data :: "import_data option"
  errors :: "import_error list"
  summary :: jstring

text \<open>
  A workbook as read by the spreadsheet library: its sheet names in order, and for each
  sheet the rows \<open>sheet_to_json\<close> gives.
\<close>

record workbook =
  SheetNames :: "jstring list"
  sheetRows :: "jstring \<Rightarrow> row list"

text \<open>
  The clock of one run: \<open>Date.now()\<close> when property row \<open>i\<close> and when tenant row \<open>i\<close> is
  handled, and the date \<open>new Date().toISOString().split('T')[0]\<close> at tenant row \<open>i\<close>.
\<close>

record clock =
  propNow :: "nat \<Rightarrow> int"
  tenantNow :: "nat \<Rightarrow> int"
  tenantToday :: "nat \<Rightarrow> jstring"

subsection \<open>Sheet classification\<close>

definition isEmployeeSheet :: "jstring \<Rightarrow> bool" where
  "isEmployeeSheet n \<longleftrightarrow>
     includes_js n (ascii ''Genzai'') \<or> includes_js n (ascii ''Ukeoi'') \<or> includes_js n tok_shain"

definition isPropertySheet :: "jstring \<Rightarrow> bool" where
  "isPropertySheet n \<longleftrightarrow> includes_js n tok_kaisharyo_joho \<or> includes_js n tok_bukken"

definition isTenantSheet :: "jstring \<Rightarrow> bool" where
  "isTenantSheet n \<longleftrightarrow> includes_js n tok_nyukyosha_ichiran \<or> includes_js n lbl_nyukyo"

subsection \<open>The employee pipeline\<close>

text \<open>
  The callback of \<open>data.forEach\<close> either pushes one error and returns, or pushes one
  candidate; \<open>employeeRow\<close> is that outcome for the row at \<open>index\<close>.
\<close>

definition employeeRow :: "engine \<Rightarrow> nat \<times> row \<Rightarrow> import_error + employee" where
  "employeeRow eng ir =
     (let index = fst ir; r = snd ir in
      if \<not> validateExcelEmployeeRow r
        then Inl \<lparr>err_row = index + 1, err_field = ascii ''m'' @ [0xFA] @ ascii ''ltiples'',
                  err_message = ascii ''Datos incompletos''\<rparr>
      else
        let i = trim (String eng (cell_or (get r lbl_shain_no) (get r (ascii ''ID''))));
            name = trim (String eng (cell_or (get r lbl_shimei) (get r (ascii ''Name''))))
        in if i = [] \<or> name = []
             then Inl \<lparr>err_row = index + 1, err_field = ascii ''ID/Nombre'',
                       err_message = ascii ''ID y Nombre requeridos''\<rparr>
           else Inr \<lparr>e_id = i, e_name = name,
                     e_name_kana = trim (String eng (cell_or (get r lbl_kana) (Str []))),
                     e_company = trim (String eng (cell_or (get r lbl_hakensaki) (Str []))),
                     e_full_data = Some r\<rparr>)"

text \<open>The errors and the candidates a \<open>forEach\<close> has pushed, in row order.\<close>

definition pushedErrors :: "(import_error + 'a) list \<Rightarrow> import_error list" where
  "pushedErrors outcomes = concat (map (\<lambda>x. case x of Inl e \<Rightarrow> [e] | Inr _ \<Rightarrow> []) outcomes)"

definition pushedCandidates :: "(import_error + 'a) list \<Rightarrow> 'a list" where
  "pushedCandidates outcomes = concat (map (\<lambda>x. case x of Inl _ \<Rightarrow> [] | Inr c \<Rightarrow> [c]) outcomes)"

definition newline :: jstring where
  "newline = [10]"

definition processEmployeeImport :: "engine \<Rightarrow> workbook \<Rightarrow> jstring list \<Rightarrow> ImportResult" where
  "processEmployeeImport eng wb sheetNames =
     (case find isEmployeeSheet sheetNames of
        None \<Rightarrow>
          \<lparr>success = False, import_type = None, data = None, errors = [],
           summary = ascii ''Hoja de empleados no encontrada''\<rparr>
      | Some empSheet \<Rightarrow>
          (let rows = sheetRows wb empSheet;
               outcomes = map (employeeRow eng) (enumerate 0 rows);
               errs = pushedErrors outcomes;
               emps = pushedCandidates outcomes
           in \<lparr>success = (length errs = 0),
                import_type = Some Employees,
                data = Some \<lparr>data_properties = None, data_tenants = None,
                             data_employees = Some emps\<rparr>,
                errors = errs,
                summary = trim (newline @ ascii ''Importaci'' @ [0xF3] @ ascii ''n de Empleados:''
                  @ newline @ ascii ''- Total filas procesadas: '' @ String_of_int (int (length rows))
                  @ newline @ ascii ''- Empleados v'' @ [0xE1] @ ascii ''lidos: ''
                  @ String_of_int (int (length emps))
                  @ newline @ ascii ''- Errores encontrados: '' @ String_of_int (int (length errs))
                  @ newline @ ascii ''    '')\<rparr>))"

subsection \<open>The rent-management pipeline\<close>

text \<open>\<open>parseInt(String(c || 0)) || 0\<close>, the coercion of every monetary cell.\<close>

definition coerceAmount :: "engine \<Rightarrow> cell \<Rightarrow> int" where
  "coerceAmount eng c = num_or (parseInt eng (String eng (cell_or c (Num 0)))) 0"

definition propertyRow :: "engine \<Rightarrow> clock \<Rightarrow> nat \<times> row \<Rightarrow> import_error + property" where
  "propertyRow eng clk ir =
     (let index = fst ir; r = snd ir in
      if \<not> validateExcelPropertyRow r
        then Inl \<lparr>err_row = index + 1, err_field = ascii ''propiedad'',
                  err_message = ascii ''Campos requeridos faltantes''\<rparr>
      else
        let name = trim (String eng (cell_or (get r lbl_apato) (get r lbl_bukkenmei)))
        in if name = []
             then Inl \<lparr>err_row = index + 1, err_field = ascii ''nombre'',
                       err_message = ascii ''Nombre de propiedad requerido''\<rparr>
           else Inr \<lparr>p_id = propNow clk index + int index,
                     p_name = name,
                     p_room_number = None,
                     p_postal_code = None,
                     p_address_auto = trim (String eng (cell_or (get r lbl_jusho) (Str []))),
                     p_address_detail = None,
                     p_address = trim (String eng (cell_or (get r lbl_jusho) (Str []))),
                     p_type = ascii ''1K'',
                     p_capacity =
                       num_or (parseInt eng (String eng (cell_or (get r lbl_nyukyo_ninzu) (Num 2)))) 2,
                     p_rent_cost = coerceAmount eng (get r lbl_yachin),
                     p_rent_price_uns = coerceAmount eng (get r lbl_usn_yachin),
                     p_parking_cost = coerceAmount eng (get r lbl_chushajodai),
                     p_manager_name = None,
                     p_manager_phone = None,
                     p_contract_start = strOf (cell_or (get r lbl_keiyaku_kaishibi) (Str [])),
                     p_contract_end =
                       Some (strOf (cell_or (get r lbl_keiyaku_shuryo) (Str [])))\<rparr>)"

definition tenantRow :: "engine \<Rightarrow> clock \<Rightarrow> property list \<Rightarrow> nat \<times> row \<Rightarrow> import_error + tenant" where
  "tenantRow eng clk props ir =
     (let index = fst ir; r = snd ir in
      if \<not> validateExcelTenantRow r
        then Inl \<lparr>err_row = index + 1, err_field = ascii ''inquilino'',
                  err_message = ascii ''Campos requeridos faltantes''\<rparr>
      else
        let apt = trim (String eng (get r lbl_apato));
            kana = trim (String eng (get r lbl_kana))
        in if apt = [] \<or> kana = []
             then Inl \<lparr>err_row = index + 1, err_field = ascii ''apt/kana'',
                       err_message = ascii ''Apartamento y Kana requeridos''\<rparr>
           else
             (case find (\<lambda>p. p_name p = apt) props of
                None \<Rightarrow>
                  Inl \<lparr>err_row = index + 1, err_field = ascii ''apartamento'',
                       err_message = ascii ''Propiedad '' @ [34] @ apt @ [34]
                                     @ ascii '' no encontrada''\<rparr>
              | Some prop \<Rightarrow>
                  Inr \<lparr>t_id = tenantNow clk index + int index,
                       t_employee_id = ascii ''IMP-'' @ String_of_int (int index),
                       t_name = kana,
                       t_name_kana = kana,
                       t_property_id = p_id prop,
                       t_rent_contribution = coerceAmount eng (get r lbl_yachin),
                       t_parking_fee = coerceAmount eng (get r lbl_chushajo),
                       t_entry_date = strOf (cell_or (get r lbl_nyukyo) (Str (tenantToday clk index))),
                       t_status = active\<rparr>))"

text \<open>The rows of the first sheet whose name satisfies \<open>isSheet\<close>; none if there is no such sheet.\<close>

definition sheetData :: "(jstring \<Rightarrow> bool) \<Rightarrow> workbook \<Rightarrow> jstring list \<Rightarrow> row list" where
  "sheetData isSheet wb sheetNames =
     (case find isSheet sheetNames of None \<Rightarrow> [] | Some n \<Rightarrow> sheetRows wb n)"

definition candidateProperties :: "engine \<Rightarrow> clock \<Rightarrow> workbook \<Rightarrow> jstring list \<Rightarrow> property list" where
  "candidateProperties eng clk wb sheetNames =
     pushedCandidates (map (propertyRow eng clk) (enumerate 0 (sheetData isPropertySheet wb sheetNames)))"

text \<open>\<open>integrityCheck.errors.map((e, i) => ...)\<close>: the integrity errors as import errors.\<close>

definition integrityRows :: "integrity_error list \<Rightarrow> import_error list" where
  "integrityRows es =
     map (\<lambda>ie. \<lparr>err_row = fst ie, err_field = ie_type (snd ie),
                   err_message = ie_message (snd ie)\<rparr>) (enumerate 0 es)"

definition processRentImport :: "engine \<Rightarrow> clock \<Rightarrow> workbook \<Rightarrow> jstring list \<Rightarrow> ImportResult" where
  "processRentImport eng clk wb sheetNames =
     (let propOutcomes =
            map (propertyRow eng clk) (enumerate 0 (sheetData isPropertySheet wb sheetNames));
          props = pushedCandidates propOutcomes;
          tenantOutcomes =
            map (tenantRow eng clk props) (enumerate 0 (sheetData isTenantSheet wb sheetNames));
          tens = pushedCandidates tenantOutcomes;
          errs = pushedErrors propOutcomes @ pushedErrors tenantOutcomes;
          integrityCheck = validateDataIntegrity props tens
      in \<lparr>success = (length errs = 0 \<and> valid integrityCheck),
           import_type = Some Rent_management,
           data = Some \<lparr>data_properties = Some props, data_tenants = Some tens,
                        data_employees = None\<rparr>,
           errors = errs @ integrityRows (ic_errors integrityCheck),
           summary = trim (newline @ ascii ''Importaci'' @ [0xF3] @ ascii ''n de Gesti'' @ [0xF3]
             @ ascii ''n de Rentas:''
             @ newline @ ascii ''- Propiedades: '' @ String_of_int (int (length props))
             @ newline @ ascii ''- Inquilinos: '' @ String_of_int (int (length tens))
             @ newline @ ascii ''- Errores de validaci'' @ [0xF3] @ ascii ''n: ''
             @ String_of_int (int (length errs))
             @ newline @ ascii ''- Errores de integridad: ''
             @ String_of_int (int (length (ic_errors integrityCheck)))
             @ newline @ ascii ''    '')\<rparr>)"

subsection \<open>processFile\<close>

text \<open>
  What reading the file gave: the spreadsheet library is not loaded, reading threw (an
  \<open>Error\<close> with its message, or another value), or a workbook. The first two end in the
  \<open>catch\<close> block. The loading flag of the hook is not modelled.
\<close>

datatype file_read = XLSX_missing | Read_threw "jstring option" | Read_ok workbook

definition caught :: "jstring option \<Rightarrow> ImportResult" where
  "caught m =
     \<lparr>success = False, import_type = None, data = None, errors = [],
      summary = ascii ''Error: '' @ (case m of Some t \<Rightarrow> t | None \<Rightarrow> ascii ''Error desconocido'')\<rparr>"

definition processFile :: "engine \<Rightarrow> clock \<Rightarrow> file_read \<Rightarrow> ImportResult" where
  "processFile eng clk f =
     (case f of
        XLSX_missing \<Rightarrow> caught (Some (ascii ''Librer'' @ [0xED] @ ascii ''a XLSX no cargada''))
      | Read_threw m \<Rightarrow> caught m
      | Read_ok wb \<Rightarrow>
          (let sheetNames = SheetNames wb;
               hasEmployees = list_ex isEmployeeSheet sheetNames;
               hasProperties = list_ex isPropertySheet sheetNames;
               hasTenants = list_ex isTenantSheet sheetNames
           in if hasEmployees then processEmployeeImport eng wb sheetNames
              else if hasProperties \<or> hasTenants then processRentImport eng clk wb sheetNames
              else \<lparr>success = False, import_type = None, data = None, errors = [],
                     summary = ascii ''No se detect'' @ [0xF3] @ ascii '' formato v'' @ [0xE1]
                       @ ascii ''lido de importaci'' @ [0xF3] @ ascii ''n''\<rparr>))"

section \<open>Example data\<close>

text \<open>Small stores on which the theorems below are instantiated.\<close>

definition exampleProperty :: "int \<Rightarrow> jstring \<Rightarrow> int \<Rightarrow> int \<Rightarrow> jstring option \<Rightarrow> property" where
  "exampleProperty i n cap price ends =
     \<lparr>p_id = i, p_name = n, p_room_number = None, p_postal_code = None,
      p_address_auto = ascii ''Nagoya'', p_address_detail = None, p_address = ascii ''Nagoya'',
      p_type = ascii ''1K'', p_capacity = cap, p_rent_cost = 50000, p_rent_price_uns = price,
      p_parking_cost = 0, p_manager_name = None, p_manager_phone = None,
      p_contract_start = ascii ''2024-04-01'', p_contract_end = ends\<rparr>"

definition exampleTenant :: "int \<Rightarrow> jstring \<Rightarrow> int \<Rightarrow> int \<Rightarrow> status \<Rightarrow> tenant" where
  "exampleTenant i emp pid rent st =
     \<lparr>t_id = i, t_employee_id = emp, t_name = ascii ''Tanaka'', t_name_kana = ascii ''Tanaka'',
      t_property_id = pid, t_rent_contribution = rent, t_parking_fee = 0,
      t_entry_date = ascii ''2024-04-01T00:00:00Z'', t_status = st\<rparr>"

definition exampleEmployee :: "jstring \<Rightarrow> jstring \<Rightarrow> employee" where
  "exampleEmployee i n =
     \<lparr>e_id = i, e_name = n, e_name_kana = n, e_company = ascii ''UNS'', e_full_data = None\<rparr>"

definition exampleDb :: "property list \<Rightarrow> tenant list \<Rightarrow> employee list \<Rightarrow> database" where
  "exampleDb ps ts es = (INITIAL_DB (ascii ''2024-04-01T00:00:00.000Z''))
     \<lparr>properties := ps, tenants := ts, employees := es\<rparr>"

definition exampleParse :: "jstring \<Rightarrow> int option" where
  "exampleParse s = (if s = ascii ''2099-12-31'' then Some 4102358400000 else None)"

definition exampleEngine :: engine where
  "exampleEngine =
     \<lparr>numberToString = (\<lambda>x. if x = 2469 / 2 then ascii ''1234.5''
                             else if x = 1 / 2 then ascii ''0.5''
                             else if x = 1000000000000000000000 then ascii ''1e+21''
                             else ascii ''NaN''),
      toNumber = (\<lambda>m. if m = 9007199254740993 then 9007199254740992 else m)\<rparr>"

definition exampleClock :: clock where
  "exampleClock = \<lparr>propNow = (\<lambda>i. 1700000000000), tenantNow = (\<lambda>i. 1700000000500),
                    tenantToday = (\<lambda>i. ascii ''2023-11-14'')\<rparr>"

definition exampleWorkbook :: "jstring list \<Rightarrow> row list \<Rightarrow> row list \<Rightarrow> workbook" where
  "exampleWorkbook names propRows tenRows =
     \<lparr>SheetNames = names,
      sheetRows = (\<lambda>n. if n = tok_bukken then propRows
                       else if n = lbl_nyukyo then tenRows else [])\<rparr>"

definition examplePropertyRow :: "jstring \<Rightarrow> cell \<Rightarrow> row" where
  "examplePropertyRow name rent =
     [(lbl_apato, Str name), (lbl_nyukyo_ninzu, Num 2), (lbl_yachin, rent),
      (lbl_usn_yachin, Num 80000)]"

definition exampleTenantRow :: "jstring \<Rightarrow> jstring \<Rightarrow> row" where
  "exampleTenantRow apt kana = [(lbl_apato, Str apt), (lbl_kana, Str kana), (lbl_yachin, Num 40000)]"

section \<open>Properties of the CRUD operations\<close>

lemma found_iff: "found pred xs \<longleftrightarrow> (\<exists>x \<in> set xs. pred x)"
  by (auto simp: found_def find_None_iff)

lemma addTenant_rejects:
  assumes "(\<exists>t \<in> set (tenants db). t_employee_id t = t_employee_id new \<and> t_status t = active)
           \<or> \<not> (\<exists>p \<in> set (properties db). p_id p = t_property_id new)"
  shows "\<not> succeeded (fst (addTenant isDatetime now new db prev))"
    and "snd (addTenant isDatetime now new db prev) = prev"
  using assms by (auto simp: addTenant_def found_iff succeeded_def split: list.splits)

lemma addTenant_fresh_distinct:
  assumes "distinct (activeEmployeeIds db)"
  shows "distinct (activeEmployeeIds (snd (addTenant isDatetime now new db db)))"
  using assms
  by (auto simp: addTenant_def found_iff activeEmployeeIds_def split: list.splits)

lemma addEmployees_employees:
  "employees (snd (addEmployees es db)) =
     employees db @ filter (\<lambda>emp. e_id emp \<notin> e_id ` set (employees db)) es"
  by (auto simp: addEmployees_def found_iff image_iff intro!: filter_cong)

lemma addEmployees_covers:
  assumes "emp \<in> set es"
  shows "e_id emp \<in> e_id ` set (employees (snd (addEmployees es db)))"
proof (cases "e_id emp \<in> e_id ` set (employees db)")
  case True
  then show ?thesis
    by (simp add: addEmployees_employees image_Un)
next
  case False
  with assms have "emp \<in> set (filter (\<lambda>emp. e_id emp \<notin> e_id ` set (employees db)) es)"
    by simp
  then have "e_id emp \<in> e_id ` set (filter (\<lambda>emp. e_id emp \<notin> e_id ` set (employees db)) es)"
    by (rule imageI)
  then show ?thesis
    by (simp add: addEmployees_employees image_Un)
qed

lemma addEmployees_idem:
  "snd (addEmployees es (snd (addEmployees es db))) = snd (addEmployees es db)"
proof -
  let ?db' = "snd (addEmployees es db)"
  have "filter (\<lambda>emp. e_id emp \<notin> e_id ` set (employees ?db')) es = []"
    unfolding filter_empty_conv using addEmployees_covers by blast
  then have "employees (snd (addEmployees es ?db')) = employees ?db'"
    by (simp add: addEmployees_employees[of es ?db'])
  then show ?thesis
    by (simp add: addEmployees_def)
qed

lemma addEmployees_distinct:
  assumes "distinct (map e_id (employees db))" "distinct (map e_id es)"
  shows "distinct (map e_id (employees (snd (addEmployees es db))))"
proof -
  let ?new = "filter (\<lambda>emp. e_id emp \<notin> e_id ` set (employees db)) es"
  have "distinct (map e_id ?new)"
    using assms(2) by (simp add: distinct_map_filter)
  moreover have "e_id ` set (employees db) \<inter> e_id ` set ?new = {}"
    by (auto simp: image_iff)
  ultimately show ?thesis
    using assms(1) by (simp add: addEmployees_employees)
qed

section \<open>Properties of the integrity checker\<close>

lemma includes_js_sublist: "includes_js s n \<longleftrightarrow> sublist n s"
  by (induction s) (auto simp: sublist_Cons_right)

lemma foldl_checkTenant:
  "foldl (checkTenant props) acc ts
     = acc @ map fkError (filter (\<lambda>t. t_property_id t \<notin> p_id ` set props) ts)"
  by (induction ts arbitrary: acc) (auto simp: checkTenant_def found_iff image_iff)

lemma foldl_checkProperty:
  "foldl (checkProperty tens) acc ps
     = acc @ map (\<lambda>p. capacityError p (activeCount tens p))
               (filter (\<lambda>p. int (activeCount tens p) > p_capacity p) ps)"
  by (induction ps arbitrary: acc) (auto simp: checkProperty_def activeCount_def Let_def)

lemma validateDataIntegrity_errors:
  "ic_errors (validateDataIntegrity props tens)
     = map fkError (filter (\<lambda>t. t_property_id t \<notin> p_id ` set props) tens)
       @ map (\<lambda>p. capacityError p (activeCount tens p))
           (filter (\<lambda>p. int (activeCount tens p) > p_capacity p) props)"
  by (simp add: validateDataIntegrity_def Let_def foldl_checkTenant foldl_checkProperty)

lemma capacityError_pair:
  "includes_js (ie_message (capacityError p n))
     (String_of_int (int n) @ ascii ''/'' @ String_of_int (p_capacity p))"
proof -
  have "ie_message (capacityError p n)
          = (ascii ''Propiedad '' @ [34] @ p_name p @ [34] @ ascii '' excede capacidad ('')
            @ (String_of_int (int n) @ ascii ''/'' @ String_of_int (p_capacity p))
            @ ascii '')''"
    by (simp add: capacityError_def)
  then show ?thesis
    by (simp only: includes_js_sublist sublist_appendI)
qed

lemma validateDataIntegrity_valid:
  "valid (validateDataIntegrity props tens)
     \<longleftrightarrow> ic_errors (validateDataIntegrity props tens) = []"
  by (simp add: validateDataIntegrity_def Let_def)

section \<open>Properties of the dashboard metrics\<close>

lemma contractAlert_danger:
  "filter (\<lambda>a. a_type a = danger) (foldl (contractAlert parse now stamp) acc ps)
     = filter (\<lambda>a. a_type a = danger) acc"
  by (induction ps arbitrary: acc) (simp_all add: contractAlert_def Let_def split: option.splits)

lemma alerts_dashboardMetrics:
  "alerts (dashboardMetrics parse now stamp db)
     = foldl (contractAlert parse now stamp) [] (activeProps parse now db)
       @ (if zeroRentTenants db \<noteq> [] then [zeroRentAlert stamp (length (zeroRentTenants db))]
          else [])"
  by (simp add: dashboardMetrics_def Let_def)

lemma danger_alerts:
  "filter (\<lambda>a. a_type a = danger) (alerts (dashboardMetrics parse now stamp db))
     = (if zeroRentTenants db \<noteq> [] then [zeroRentAlert stamp (length (zeroRentTenants db))]
        else [])"
  by (simp add: alerts_dashboardMetrics contractAlert_danger zeroRentAlert_def)

lemma zeroRentAlert_count:
  "includes_js (msg (zeroRentAlert stamp n)) (String_of_int (int n))"
proof -
  have "msg (zeroRentAlert stamp n)
          = ([0x26A0, 0xFE0F] @ ascii '' '') @ String_of_int (int n)
            @ ascii '' inquilino(s) sin renta configurada''"
    by (simp add: zeroRentAlert_def)
  then show ?thesis
    by (simp only: includes_js_sublist sublist_appendI)
qed

section \<open>Properties of the rent allocation\<close>

lemma distributeEvenly_Cons:
  "distributeEvenly property (first # others) =
     Inr (first\<lparr>t_rent_contribution :=
                  p_rent_price_uns property div (1 + int (length others))
                  + p_rent_price_uns property mod (1 + int (length others))\<rparr>
          # map (\<lambda>t. t\<lparr>t_rent_contribution :=
                  p_rent_price_uns property div (1 + int (length others))\<rparr>) others)"
  by (simp add: distributeEvenly_def Let_def)

lemma distributeEvenly_sum:
  assumes "distributeEvenly property ts = Inr assigned"
  shows "sum_list (map t_rent_contribution assigned) = p_rent_price_uns property"
proof (cases ts)
  case Nil
  with assms show ?thesis by (simp add: distributeEvenly_def)
next
  case (Cons first others)
  let ?n = "1 + int (length others)"
  let ?R = "p_rent_price_uns property"
  from assms Cons have a: "assigned = first\<lparr>t_rent_contribution := ?R div ?n + ?R mod ?n\<rparr>
          # map (\<lambda>t. t\<lparr>t_rent_contribution := ?R div ?n\<rparr>) others"
    by (simp add: distributeEvenly_Cons)
  have "sum_list (map t_rent_contribution assigned)
          = ?R div ?n + ?R mod ?n + int (length others) * (?R div ?n)"
    by (simp add: a comp_def sum_list_triv)
  also have "\<dots> = ?n * (?R div ?n) + ?R mod ?n"
    by (simp add: algebra_simps)
  also have "\<dots> = ?R"
    by simp
  finally show ?thesis .
qed

section \<open>Properties of the import pipeline\<close>

subsection \<open>parseInt reads back the digits of a safe integer\<close>

lemma digitVal_digit: "d < 10 \<Longrightarrow> digitVal 10 (48 + d) = Some d"
  by (simp add: digitVal_def)

lemma digitVal_range: "48 \<le> c \<and> c \<le> 57 \<Longrightarrow> digitVal 10 c = Some (c - 48)"
proof -
  assume r: "48 \<le> c \<and> c \<le> 57"
  then have "c - 48 < 10" by arith
  with r show ?thesis by (simp add: digitVal_def)
qed

lemma decimal_digits: "c \<in> set (decimal n) \<Longrightarrow> 48 \<le> c \<and> c \<le> 57"
proof (induction n rule: decimal.induct)
  case (1 n)
  show ?case
  proof (cases "n < 10")
    case True
    with "1.prems" show ?thesis by (simp add: decimal.simps [of n])
  next
    case False
    have "n mod 10 < 10" by simp
    with False "1.prems" "1.IH" show ?thesis
      by (auto simp: decimal.simps [of n])
  qed
qed

lemma decimal_nonempty: "decimal n \<noteq> []"
  by (subst decimal.simps) simp

lemma readDigits_snoc:
  assumes "\<forall>c \<in> set xs. 48 \<le> c \<and> c \<le> 57" and "d < 10"
  shows "readDigits 10 acc (xs @ [48 + d]) = readDigits 10 acc xs * 10 + d"
  using assms
proof (induction xs arbitrary: acc)
  case Nil
  then show ?case by (simp add: digitVal_digit)
next
  case (Cons c cs)
  then have "digitVal 10 c = Some (c - 48)"
    by (simp add: digitVal_range)
  with Cons show ?case by simp
qed

lemma readDigits_decimal: "readDigits 10 0 (decimal n) = n"
proof (induction n rule: decimal.induct)
  case (1 n)
  show ?case
  proof (cases "n < 10")
    case True
    then show ?thesis by (simp add: decimal.simps [of n] digitVal_digit)
  next
    case False
    have "readDigits 10 0 (decimal n) = readDigits 10 0 (decimal (n div 10) @ [48 + n mod 10])"
      using False by (simp add: decimal.simps [of n])
    also have "\<dots> = readDigits 10 0 (decimal (n div 10)) * 10 + n mod 10"
      by (rule readDigits_snoc) (use decimal_digits in auto)
    also have "\<dots> = n div 10 * 10 + n mod 10"
      using False "1.IH" by simp
    finally show ?thesis by simp
  qed
qed

lemma parseDigits_decimal: "parseDigits 10 (decimal n) = Some n"
proof -
  obtain c cs where d: "decimal n = c # cs"
    using decimal_nonempty [of n] by (cases "decimal n") auto
  then have "48 \<le> c \<and> c \<le> 57"
    using decimal_digits [of c n] by simp
  then have "digitVal 10 c = Some (c - 48)"
    by (rule digitVal_range)
  then have "parseDigits 10 (decimal n) = Some (readDigits 10 0 (decimal n))"
    by (simp add: parseDigits_def d)
  then show ?thesis
    by (simp add: readDigits_decimal)
qed

lemma decimal_plain:
  "trimStart (decimal n) = decimal n"
  "hd (decimal n) \<noteq> 45" "hd (decimal n) \<noteq> 43"
  "\<not> (case decimal n of a # b # _ \<Rightarrow> a = 48 \<and> (b = 120 \<or> b = 88) | _ \<Rightarrow> False)"
proof -
  obtain c cs where d: "decimal n = c # cs"
    using decimal_nonempty [of n] by (cases "decimal n") auto
  have c: "48 \<le> c \<and> c \<le> 57"
    using decimal_digits [of c n] d by simp
  then show "trimStart (decimal n) = decimal n"
    by (auto simp: trimStart_def d isWhiteSpace_def)
  from c show "hd (decimal n) \<noteq> 45" "hd (decimal n) \<noteq> 43"
    by (auto simp: d)
  show "\<not> (case decimal n of a # b # _ \<Rightarrow> a = 48 \<and> (b = 120 \<or> b = 88) | _ \<Rightarrow> False)"
  proof (cases cs)
    case Nil
    then show ?thesis by (simp add: d)
  next
    case (Cons b bs)
    then have "48 \<le> b \<and> b \<le> 57"
      using decimal_digits [of b n] d by simp
    then show ?thesis by (auto simp: d Cons)
  qed
qed

lemma parseInt_decimal:
  assumes "n < 2 ^ 53"
  shows "parseInt eng (decimal n) = Some (int n)"
  using assms decimal_plain [of n] decimal_nonempty [of n]
  by (simp add: parseInt_def Let_def parseDigits_decimal)

lemma parseInt_String_of_int:
  assumes "\<bar>i\<bar> < 2 ^ 53"
  shows "parseInt eng (String_of_int i) = Some i"
proof (cases "i < 0")
  case False
  with assms have "nat i < 2 ^ 53"
    by (simp add: nat_less_iff)
  with False show ?thesis
    by (simp add: String_of_int_def parseInt_decimal)
next
  case True
  let ?m = "nat (- i)"
  from True assms have m: "?m < 2 ^ 53"
    by (simp add: nat_less_iff)
  have "trimStart (45 # decimal ?m) = 45 # decimal ?m"
    by (simp add: trimStart_def isWhiteSpace_def)
  then have "parseInt eng (45 # decimal ?m) = Some (- int ?m)"
    using decimal_plain(4) [of ?m] m
    by (simp add: parseInt_def Let_def parseDigits_decimal)
  with True show ?thesis
    by (simp add: String_of_int_def)
qed

lemma parseInt_zero: "parseInt eng (String eng (Num 0)) = Some 0"
  using parseInt_String_of_int [of 0 eng]
  by (simp add: String_def isSafeInteger_def)


lemma coerceAmount_falsy: "\<not> truthy c \<Longrightarrow> coerceAmount eng c = 0"
  by (simp add: coerceAmount_def cell_or_def parseInt_zero num_or_def)


lemma coerceAmount_parsed:
  "truthy c \<Longrightarrow> parseInt eng (String eng c) = Some n \<Longrightarrow> coerceAmount eng c = n"
  by (simp add: coerceAmount_def cell_or_def num_or_def)

lemma coerceAmount_safe_integer:
  assumes "isSafeInteger x"
  shows "coerceAmount eng (Num x) = \<lfloor>x\<rfloor>"
proof (cases "x = 0")
  case True
  then show ?thesis
    by (simp add: coerceAmount_falsy truthy_def)
next
  case False
  from assms have "\<bar>\<lfloor>x\<rfloor>\<bar> < 2 ^ 53"
    by (auto simp: isSafeInteger_def abs_if floor_less_iff less_floor_iff split: if_splits)
  then have "parseInt eng (String eng (Num x)) = Some \<lfloor>x\<rfloor>"
    using assms by (simp add: String_def parseInt_String_of_int)
  with False show ?thesis
    by (simp add: coerceAmount_parsed truthy_def)
qed


text \<open>
  Number cells that are not safe integers go through the engine; with an engine that
  prints and rounds as the usual ones do, a fraction is cut off, the exponent form is
  read up to the letter, and an integer above \<open>2^53\<close> is rounded.
\<close>

lemma not_safe_examples:
  "\<not> isSafeInteger (2469 / 2)" "\<not> isSafeInteger (1 / 2)" "\<not> isSafeInteger 1000000000000000000000"
proof -
  have "\<lfloor>2469 / 2 :: rat\<rfloor> = 1234" "\<lfloor>1 / 2 :: rat\<rfloor> = 0"
    by (simp_all add: floor_eq_iff)
  then show "\<not> isSafeInteger (2469 / 2)" "\<not> isSafeInteger (1 / 2)"
    by (simp_all add: isSafeInteger_def)
  show "\<not> isSafeInteger 1000000000000000000000"
    by (simp add: isSafeInteger_def)
qed

lemma String_other_numbers:
  "String exampleEngine (Num (2469 / 2)) = ascii ''1234.5''"
  "String exampleEngine (Num (1 / 2)) = ascii ''0.5''"
  "String exampleEngine (Num 1000000000000000000000) = ascii ''1e+21''"
  by (simp_all add: String_def not_safe_examples exampleEngine_def)

lemma coerceAmount_other_numbers:
  "coerceAmount exampleEngine (Num (2469 / 2)) = 1234"
  "coerceAmount exampleEngine (Num (1 / 2)) = 0"
  "coerceAmount exampleEngine (Num 1000000000000000000000) = 1"
  "coerceAmount exampleEngine (Str (ascii ''9007199254740993'')) = 9007199254740992"
proof -
  have p: "parseInt exampleEngine (ascii ''1234.5'') = Some 1234"
    "parseInt exampleEngine (ascii ''0.5'') = Some 0"
    "parseInt exampleEngine (ascii ''1e+21'') = Some 1"
    "parseInt exampleEngine (ascii ''9007199254740993'') = Some 9007199254740992"
    by (simp_all add: parseInt_def trimStart_def isWhiteSpace_def parseDigits_def digitVal_def
        exampleEngine_def ascii_def Let_def)
  have t: "truthy (Num (2469 / 2))" "truthy (Num (1 / 2))" "truthy (Num 1000000000000000000000)"
    "truthy (Str (ascii ''9007199254740993''))"
    by (simp_all add: truthy_def ascii_def)
  show "coerceAmount exampleEngine (Num (2469 / 2)) = 1234"
    using t(1) p(1) by (simp only: coerceAmount_def cell_or_def if_True String_other_numbers num_or_def)
      simp
  show "coerceAmount exampleEngine (Num (1 / 2)) = 0"
    using t(2) p(2) by (simp only: coerceAmount_def cell_or_def if_True String_other_numbers num_or_def)
      simp
  show "coerceAmount exampleEngine (Num 1000000000000000000000) = 1"
    using t(3) p(3) by (simp only: coerceAmount_def cell_or_def if_True String_other_numbers num_or_def)
      simp
  show "coerceAmount exampleEngine (Str (ascii ''9007199254740993'')) = 9007199254740992"
    using t(4) p(4) by (simp add: coerceAmount_def cell_or_def String_def num_or_def)
qed

subsection \<open>Rows and outcomes\<close>



lemma tenantRow_isl:
  "isl (tenantRow eng clk props (i, r)) \<longleftrightarrow>
     \<not> validateExcelTenantRow r
     \<or> trim (String eng (get r lbl_apato)) = [] \<or> trim (String eng (get r lbl_kana)) = []
     \<or> find (\<lambda>p. p_name p = trim (String eng (get r lbl_apato))) props = None"
  by (simp add: tenantRow_def Let_def split: option.splits)





lemmas label_defs = lbl_apato_def lbl_bukkenmei_def lbl_jusho_def lbl_nyukyo_ninzu_def
  lbl_yachin_def lbl_usn_yachin_def lbl_chushajodai_def lbl_chushajo_def lbl_keiyaku_kaishibi_def
  lbl_keiyaku_shuryo_def lbl_kana_def lbl_nyukyo_def lbl_shain_no_def lbl_shimei_def
  lbl_hakensaki_def tok_shain_def tok_kaisharyo_joho_def tok_bukken_def tok_nyukyosha_ichiran_def

lemmas js_defs = ascii_def get_def isString_def optionalString_def strOf_def cell_or_def truthy_def
  String_def isSafeInteger_def trim_def trimStart_def isWhiteSpace_def parseInt_def parseDigits_def
  digitVal_def
  num_or_def coerceAmount_def String_of_int_def Let_def

lemmas row_defs = propertyRow_def tenantRow_def validateExcelPropertyRow_def
  validateExcelTenantRow_def examplePropertyRow_def exampleTenantRow_def exampleClock_def

lemmas sheet_defs = sheetData_def isPropertySheet_def isTenantSheet_def exampleWorkbook_def
  candidateProperties_def pushedCandidates_def pushedErrors_def enumerate_eq_zip

subsection \<open>Classification\<close>

lemma list_ex_find: "list_ex P xs \<Longrightarrow> find P xs \<noteq> None"
  by (auto simp: find_None_iff list_ex_iff)

lemma processEmployeeImport_type:
  assumes "list_ex isEmployeeSheet names"
  shows "import_type (processEmployeeImport eng wb names) = Some Employees"
    and "data (processEmployeeImport eng wb names) \<noteq> None"
  using list_ex_find [OF assms]
  by (auto simp: processEmployeeImport_def Let_def split: option.splits)

lemma processRentImport_type:
  "import_type (processRentImport eng clk wb names) = Some Rent_management"
  by (simp add: processRentImport_def Let_def)

subsection \<open>Tenant rows without a matching property\<close>

lemma enumerate_split:
  assumes "i < length xs"
  shows "enumerate 0 xs = enumerate 0 (take i xs) @ (i, xs ! i) # enumerate (Suc i) (drop (Suc i) xs)"
proof -
  have "enumerate 0 xs = enumerate 0 (take i xs @ xs ! i # drop (Suc i) xs)"
    using assms by (simp add: id_take_nth_drop [symmetric])
  also have "\<dots> = enumerate 0 (take i xs) @ enumerate (length (take i xs)) (xs ! i # drop (Suc i) xs)"
    by (simp add: enumerate_append_eq)
  also have "length (take i xs) = i"
    using assms by simp
  finally show ?thesis by simp
qed

lemma pushedErrors_append: "pushedErrors (xs @ ys) = pushedErrors xs @ pushedErrors ys"
  by (simp add: pushedErrors_def)

lemma pushedCandidates_append: "pushedCandidates (xs @ ys) = pushedCandidates xs @ pushedCandidates ys"
  by (simp add: pushedCandidates_def)

lemma pushed_Inl:
  "pushedErrors (Inl e # xs) = e # pushedErrors xs"
  "pushedCandidates (Inl e # xs) = pushedCandidates xs"
  by (simp_all add: pushedErrors_def pushedCandidates_def)

lemma tenantRow_err_row: "tenantRow eng clk props (i, r) = Inl e \<Longrightarrow> err_row e = i + 1"
  by (auto simp: tenantRow_def Let_def split: if_splits option.splits)

lemma tenantRow_not_found:
  assumes "validateExcelTenantRow r"
    and "trim (String eng (get r lbl_apato)) \<noteq> []" and "trim (String eng (get r lbl_kana)) \<noteq> []"
    and "find (\<lambda>p. p_name p = trim (String eng (get r lbl_apato))) props = None"
  shows "tenantRow eng clk props (i, r) =
           Inl \<lparr>err_row = i + 1, err_field = ascii ''apartamento'',
                err_message = ascii ''Propiedad '' @ [34] @ trim (String eng (get r lbl_apato)) @ [34]
                              @ ascii '' no encontrada''\<rparr>"
  using assms by (simp add: tenantRow_def Let_def)

lemma processRentImport_parts:
  "errors (processRentImport eng clk wb names) =
     pushedErrors (map (propertyRow eng clk) (enumerate 0 (sheetData isPropertySheet wb names)))
     @ pushedErrors (map (tenantRow eng clk (candidateProperties eng clk wb names))
                       (enumerate 0 (sheetData isTenantSheet wb names)))
     @ integrityRows (ic_errors (validateDataIntegrity (candidateProperties eng clk wb names)
         (pushedCandidates (map (tenantRow eng clk (candidateProperties eng clk wb names))
                       (enumerate 0 (sheetData isTenantSheet wb names))))))"
  "data (processRentImport eng clk wb names) =
     Some \<lparr>data_properties = Some (candidateProperties eng clk wb names),
           data_tenants = Some (pushedCandidates (map (tenantRow eng clk (candidateProperties eng clk wb names))
                       (enumerate 0 (sheetData isTenantSheet wb names)))),
           data_employees = None\<rparr>"
  "success (processRentImport eng clk wb names) \<Longrightarrow>
     pushedErrors (map (tenantRow eng clk (candidateProperties eng clk wb names))
                       (enumerate 0 (sheetData isTenantSheet wb names))) = []"
  by (simp_all add: processRentImport_def candidateProperties_def Let_def)

section \<open>The properties of the specification, checked on the model\<close>

text \<open>
  Claim C1. A property whose \<open>contract_end\<close> is a non-empty string that does not parse
  as a date is active for \<open>isPropertyActive\<close>, but the dashboard's \<open>activeProps\<close> and
  \<open>getPropertiesByStatus(true)\<close> leave it out: their test is \<open>new Date(...) > new Date()\<close>
  alone, which is false for an invalid date. \<open>getPropertiesByStatus(false)\<close> lists it.
\<close>

theorem activeProps_drops_unparseable:
  assumes "p_contract_end p = Some s" and "s \<noteq> []" and "parse s = None"
    and "p \<in> set (properties db)"
  shows "isPropertyActive parse now p
         \<and> p \<notin> set (activeProps parse now db)
         \<and> p \<notin> set (getPropertiesByStatus parse now True db)
         \<and> p \<in> set (getPropertiesByStatus parse now False db)"
  using assms
  by (simp add: activeProps_def isPropertyActive_def getPropertiesByStatus_def
      noContractEnd_def endDate_def after_def)

theorem activeProps_drops_unparseable_witness:
  "isPropertyActive exampleParse 1700000000000
     (exampleProperty 1 (ascii ''Sakura'') 2 80000 (Some (ascii ''pending'')))
   \<and> exampleProperty 1 (ascii ''Sakura'') 2 80000 (Some (ascii ''pending''))
       \<notin> set (activeProps exampleParse 1700000000000
               (exampleDb [exampleProperty 1 (ascii ''Sakura'') 2 80000 (Some (ascii ''pending''))] [] []))
   \<and> totalProperties (dashboardMetrics exampleParse 1700000000000 (ascii ''2023-11-14T22:13:20.000Z'')
        (exampleDb [exampleProperty 1 (ascii ''Sakura'') 2 80000 (Some (ascii ''pending''))] [] [])) = 0"
proof -
  let ?p = "exampleProperty 1 (ascii ''Sakura'') 2 80000 (Some (ascii ''pending''))"
  let ?db = "exampleDb [?p] [] []"
  have h1: "p_contract_end ?p = Some (ascii ''pending'')"
    by (simp add: exampleProperty_def)
  have h2: "ascii ''pending'' \<noteq> []"
    by (simp add: ascii_def)
  have h3: "exampleParse (ascii ''pending'') = None"
    by (simp add: exampleParse_def ascii_def)
  have h4: "?p \<in> set (properties ?db)"
    by (simp add: exampleDb_def)
  have a: "activeProps exampleParse 1700000000000 ?db = []"
    by (simp add: activeProps_def exampleDb_def noContractEnd_def endDate_def after_def h1 h2 h3)
  have "totalProperties (dashboardMetrics exampleParse 1700000000000
          (ascii ''2023-11-14T22:13:20.000Z'') ?db) = 0"
    by (simp add: dashboardMetrics_def Let_def a)
  with h1 h2 h3 h4
    activeProps_drops_unparseable [of ?p "ascii ''pending''" exampleParse ?db 1700000000000]
  show ?thesis by blast
qed

text \<open>
  Claim C2, as amended. The apartment name of a tenant row is its apartment cell,
  stringified and trimmed. A tenant row whose apartment name is the name of no property
  candidate of the same run pushes exactly one error, for its row, and no tenant
  candidate: the errors of the result are those of the property rows, those of the
  earlier tenant rows, this error, those of the later tenant rows and the integrity
  errors, and the tenant candidates are those of the other rows. The result's success
  flag is false. When the row passes the row schema and its apartment name and kana are
  not empty, the error is the one saying that the property of that name was not found.
  Only the candidates of the run are searched: \<open>processRentImport\<close> is not given the
  store.
\<close>

theorem unmatched_tenant_row:
  fixes eng :: engine and clk :: clock and wb :: workbook and names :: "jstring list"
    and i :: nat
  defines "rows \<equiv> sheetData isTenantSheet wb names"
    and "props \<equiv> candidateProperties eng clk wb names"
  defines "apt \<equiv> trim (String eng (get (rows ! i) lbl_apato))"
    and "kana \<equiv> trim (String eng (get (rows ! i) lbl_kana))"
    and "before \<equiv> map (tenantRow eng clk props) (enumerate 0 (take i rows))"
    and "later \<equiv> map (tenantRow eng clk props) (enumerate (Suc i) (drop (Suc i) rows))"
  assumes "i < length rows" and "\<forall>p \<in> set props. p_name p \<noteq> apt"
  shows "\<exists>e. tenantRow eng clk props (i, rows ! i) = Inl e
           \<and> err_row e = i + 1
           \<and> (validateExcelTenantRow (rows ! i) \<and> apt \<noteq> [] \<and> kana \<noteq> [] \<longrightarrow>
                e = \<lparr>err_row = i + 1, err_field = ascii ''apartamento'',
                      err_message = ascii ''Propiedad '' @ [34] @ apt @ [34]
                                    @ ascii '' no encontrada''\<rparr>)
           \<and> errors (processRentImport eng clk wb names) =
                pushedErrors (map (propertyRow eng clk)
                                (enumerate 0 (sheetData isPropertySheet wb names)))
                @ pushedErrors before @ [e] @ pushedErrors later
                @ integrityRows (ic_errors (validateDataIntegrity props
                                   (pushedCandidates (before @ later))))
           \<and> data (processRentImport eng clk wb names) =
                Some \<lparr>data_properties = Some props,
                      data_tenants = Some (pushedCandidates (before @ later)),
                      data_employees = None\<rparr>
           \<and> \<not> success (processRentImport eng clk wb names)"
proof -
  let ?r = "rows ! i"
  have none: "find (\<lambda>p. p_name p = trim (String eng (get ?r lbl_apato))) props = None"
    using assms(8) by (simp add: find_None_iff apt_def)
  then have "isl (tenantRow eng clk props (i, ?r))"
    by (simp add: tenantRow_isl)
  then obtain e where e: "tenantRow eng clk props (i, ?r) = Inl e"
    by (cases "tenantRow eng clk props (i, ?r)") auto
  have row: "err_row e = i + 1"
    using e by (rule tenantRow_err_row)
  have msg: "e = \<lparr>err_row = i + 1, err_field = ascii ''apartamento'',
                    err_message = ascii ''Propiedad '' @ [34] @ apt @ [34]
                                  @ ascii '' no encontrada''\<rparr>"
    if "validateExcelTenantRow ?r \<and> apt \<noteq> [] \<and> kana \<noteq> []"
    using that none e tenantRow_not_found [of ?r eng props clk i]
    by (simp add: apt_def kana_def)
  have outcomes: "map (tenantRow eng clk props) (enumerate 0 rows) = before @ Inl e # later"
    using assms(7) e by (simp add: enumerate_split [of i rows] before_def later_def)
  have errs: "pushedErrors (map (tenantRow eng clk props) (enumerate 0 rows))
                = pushedErrors before @ [e] @ pushedErrors later"
    by (simp add: outcomes pushedErrors_append pushed_Inl)
  have cands: "pushedCandidates (map (tenantRow eng clk props) (enumerate 0 rows))
                = pushedCandidates (before @ later)"
    by (simp add: outcomes pushedCandidates_append pushed_Inl)
  have all_errors: "errors (processRentImport eng clk wb names) =
                pushedErrors (map (propertyRow eng clk)
                                (enumerate 0 (sheetData isPropertySheet wb names)))
                @ pushedErrors before @ [e] @ pushedErrors later
                @ integrityRows (ic_errors (validateDataIntegrity props
                                   (pushedCandidates (before @ later))))"
    using processRentImport_parts(1) [of eng clk wb names]
    by (simp only: rows_def [symmetric] props_def [symmetric] errs cands append_assoc)
  have all_data: "data (processRentImport eng clk wb names) =
                Some \<lparr>data_properties = Some props,
                      data_tenants = Some (pushedCandidates (before @ later)),
                      data_employees = None\<rparr>"
    using processRentImport_parts(2) [of eng clk wb names]
    by (simp only: rows_def [symmetric] props_def [symmetric] cands)
  have failed: "\<not> success (processRentImport eng clk wb names)"
  proof
    assume "success (processRentImport eng clk wb names)"
    then have "pushedErrors (map (tenantRow eng clk props) (enumerate 0 rows)) = []"
      using processRentImport_parts(3) [of eng clk wb names]
      by (simp only: rows_def [symmetric] props_def [symmetric])
    with errs show False by simp
  qed
  from e row msg all_errors all_data failed show ?thesis
    by (intro exI [of _ e] conjI impI)
qed

theorem unmatched_tenant_row_witness:
  "1 < length (sheetData isTenantSheet
          (exampleWorkbook [tok_bukken, lbl_nyukyo]
             [examplePropertyRow (ascii ''Sakura'') (Num 50000)]
             [exampleTenantRow (ascii ''Sakura'') (ascii ''Tanaka''),
              exampleTenantRow (ascii ''Unknown'') (ascii ''Tanaka'')])
          [tok_bukken, lbl_nyukyo])
   \<and> map p_name (candidateProperties exampleEngine exampleClock
          (exampleWorkbook [tok_bukken, lbl_nyukyo]
             [examplePropertyRow (ascii ''Sakura'') (Num 50000)]
             [exampleTenantRow (ascii ''Sakura'') (ascii ''Tanaka''),
              exampleTenantRow (ascii ''Unknown'') (ascii ''Tanaka'')])
          [tok_bukken, lbl_nyukyo]) = [ascii ''Sakura'']
   \<and> trim (String exampleEngine (get (exampleTenantRow (ascii ''Unknown'') (ascii ''Tanaka'')) lbl_apato))
       = ascii ''Unknown''
   \<and> \<not> success (processRentImport exampleEngine exampleClock
          (exampleWorkbook [tok_bukken, lbl_nyukyo]
             [examplePropertyRow (ascii ''Sakura'') (Num 50000)]
             [exampleTenantRow (ascii ''Sakura'') (ascii ''Tanaka''),
              exampleTenantRow (ascii ''Unknown'') (ascii ''Tanaka'')])
          [tok_bukken, lbl_nyukyo])"
proof -
  let ?wb = "exampleWorkbook [tok_bukken, lbl_nyukyo]
             [examplePropertyRow (ascii ''Sakura'') (Num 50000)]
             [exampleTenantRow (ascii ''Sakura'') (ascii ''Tanaka''),
              exampleTenantRow (ascii ''Unknown'') (ascii ''Tanaka'')]"
  let ?names = "[tok_bukken, lbl_nyukyo]"
  have rows: "sheetData isTenantSheet ?wb ?names =
                [exampleTenantRow (ascii ''Sakura'') (ascii ''Tanaka''),
                 exampleTenantRow (ascii ''Unknown'') (ascii ''Tanaka'')]"
    by (simp add: sheetData_def isTenantSheet_def exampleWorkbook_def label_defs)
  have apt: "trim (String exampleEngine (get (exampleTenantRow (ascii ''Unknown'') (ascii ''Tanaka'')) lbl_apato))
               = ascii ''Unknown''"
    by (simp add: exampleTenantRow_def js_defs label_defs)
  have names: "map p_name (candidateProperties exampleEngine exampleClock ?wb ?names) = [ascii ''Sakura'']"
    by (simp add: sheet_defs row_defs js_defs label_defs)
  have h1: "1 < length (sheetData isTenantSheet ?wb ?names)"
    by (simp add: rows)
  have "\<forall>n \<in> set (map p_name (candidateProperties exampleEngine exampleClock ?wb ?names)). n \<noteq> ascii ''Unknown''"
    unfolding names by (simp add: ascii_def)
  then have h2: "\<forall>p \<in> set (candidateProperties exampleEngine exampleClock ?wb ?names). p_name p \<noteq> ascii ''Unknown''"
    by simp
  then have h2': "\<forall>p \<in> set (candidateProperties exampleEngine exampleClock ?wb ?names).
      p_name p \<noteq> trim (String exampleEngine (get (sheetData isTenantSheet ?wb ?names ! 1) lbl_apato))"
    by (simp add: rows apt)
  from unmatched_tenant_row [where i = 1 and wb = ?wb and names = ?names and clk = exampleClock
      and eng = exampleEngine, OF h1 h2']
  have "\<not> success (processRentImport exampleEngine exampleClock ?wb ?names)"
    by blast
  with h1 names apt show ?thesis
    by (intro conjI)
qed

text \<open>
  The claim as stated fails in two ways, shown on one sheet. The apartment cell of the
  first tenant row has a leading space, so it is not equal to the candidate's name, but
  it matches after trimming and the row becomes a candidate without an error. The second
  row names no candidate and has an empty kana cell; its error is the one of the
  apartment-and-kana guard, not the one saying that the property was not found.
\<close>

theorem unmatched_tenant_row_counterexample:
  "errors (processRentImport exampleEngine exampleClock
      (exampleWorkbook [tok_bukken, lbl_nyukyo]
         [examplePropertyRow (ascii ''Sakura'') (Num 50000)]
         [exampleTenantRow (ascii '' Sakura'') (ascii ''Tanaka''),
          exampleTenantRow (ascii ''Unknown'') []])
      [tok_bukken, lbl_nyukyo])
     = [\<lparr>err_row = 2, err_field = ascii ''apt/kana'',
         err_message = ascii ''Apartamento y Kana requeridos''\<rparr>]
   \<and> map_option (map t_employee_id)
       (Option.bind (data (processRentImport exampleEngine exampleClock
          (exampleWorkbook [tok_bukken, lbl_nyukyo]
             [examplePropertyRow (ascii ''Sakura'') (Num 50000)]
             [exampleTenantRow (ascii '' Sakura'') (ascii ''Tanaka''),
              exampleTenantRow (ascii ''Unknown'') []])
          [tok_bukken, lbl_nyukyo])) data_tenants)
     = Some [ascii ''IMP-0'']"
proof -
  let ?wb = "exampleWorkbook [tok_bukken, lbl_nyukyo]
         [examplePropertyRow (ascii ''Sakura'') (Num 50000)]
         [exampleTenantRow (ascii '' Sakura'') (ascii ''Tanaka''),
          exampleTenantRow (ascii ''Unknown'') []]"
  let ?names = "[tok_bukken, lbl_nyukyo]"
  let ?p = "exampleProperty 1700000000000 (ascii ''Sakura'') 2 80000 (Some [])
             \<lparr>p_address_auto := [], p_address := [], p_contract_start := []\<rparr>"
  let ?t = "exampleTenant 1700000000500 (ascii ''IMP-0'') 1700000000000 40000 active
             \<lparr>t_entry_date := ascii ''2023-11-14''\<rparr>"
  have props: "candidateProperties exampleEngine exampleClock ?wb ?names = [?p]"
    by (simp add: sheet_defs row_defs js_defs label_defs exampleProperty_def decimal.simps)
  have rows: "sheetData isTenantSheet ?wb ?names =
                [exampleTenantRow (ascii '' Sakura'') (ascii ''Tanaka''),
                 exampleTenantRow (ascii ''Unknown'') []]"
    by (simp add: sheetData_def isTenantSheet_def exampleWorkbook_def label_defs)
  have r0: "tenantRow exampleEngine exampleClock [?p] (0, exampleTenantRow (ascii '' Sakura'') (ascii ''Tanaka''))
              = Inr ?t"
    by (simp add: row_defs js_defs label_defs exampleProperty_def exampleTenant_def decimal.simps)
  have r1: "tenantRow exampleEngine exampleClock [?p] (Suc 0, exampleTenantRow (ascii ''Unknown'') [])
              = Inl \<lparr>err_row = 2, err_field = ascii ''apt/kana'',
                     err_message = ascii ''Apartamento y Kana requeridos''\<rparr>"
    by (simp add: row_defs js_defs label_defs)
  have outcomes: "map (tenantRow exampleEngine exampleClock [?p]) (enumerate 0 (sheetData isTenantSheet ?wb ?names))
                    = [Inr ?t, Inl \<lparr>err_row = 2, err_field = ascii ''apt/kana'',
                     err_message = ascii ''Apartamento y Kana requeridos''\<rparr>]"
    by (simp add: rows enumerate_eq_zip r0 r1)
  have perr: "pushedErrors (map (propertyRow exampleEngine exampleClock)
                 (enumerate 0 (sheetData isPropertySheet ?wb ?names))) = []"
    by (simp add: sheet_defs row_defs js_defs label_defs)
  have integ: "ic_errors (validateDataIntegrity [?p] [?t]) = []"
    by (simp add: validateDataIntegrity_errors activeCount_def exampleProperty_def exampleTenant_def)
  have e: "errors (processRentImport exampleEngine exampleClock ?wb ?names)
             = [\<lparr>err_row = 2, err_field = ascii ''apt/kana'',
                 err_message = ascii ''Apartamento y Kana requeridos''\<rparr>]"
    unfolding processRentImport_parts(1) props outcomes perr
    by (simp add: pushedErrors_def pushedCandidates_def integ integrityRows_def)
  have d: "map_option (map t_employee_id)
             (Option.bind (data (processRentImport exampleEngine exampleClock ?wb ?names)) data_tenants)
           = Some [ascii ''IMP-0'']"
    unfolding processRentImport_parts(2) props outcomes
    by (simp add: pushedCandidates_def exampleTenant_def)
  from e d show ?thesis
    by (intro conjI)
qed

text \<open>
  Claim C3. \<open>validateDataIntegrity\<close> returns \<open>valid = true\<close> exactly when its error list
  is empty. The error list is: one \<open>FK_ERROR\<close> for each tenant whose \<open>property_id\<close> is
  the id of no property of the set, in tenant order, followed by one \<open>CAPACITY_ERROR\<close>
  for each property whose number of active tenants is greater than its capacity, in
  property order; every tenant and every property is examined. The message of a capacity
  error contains the count, a slash and the capacity.
\<close>

theorem validateDataIntegrity_exhaustive:
  "(valid (validateDataIntegrity props tens)
      \<longleftrightarrow> ic_errors (validateDataIntegrity props tens) = [])
   \<and> ic_errors (validateDataIntegrity props tens)
       = map fkError (filter (\<lambda>t. t_property_id t \<notin> p_id ` set props) tens)
         @ map (\<lambda>p. capacityError p (activeCount tens p))
             (filter (\<lambda>p. int (activeCount tens p) > p_capacity p) props)
   \<and> ie_type (fkError t) = ascii ''FK_ERROR''
   \<and> ie_type (capacityError p n) = ascii ''CAPACITY_ERROR''
   \<and> includes_js (ie_message (capacityError p n))
        (String_of_int (int n) @ ascii ''/'' @ String_of_int (p_capacity p))"
proof -
  have "ie_type (fkError t) = ascii ''FK_ERROR''"
    by (simp add: fkError_def)
  moreover have "ie_type (capacityError p n) = ascii ''CAPACITY_ERROR''"
    by (simp add: capacityError_def)
  moreover note validateDataIntegrity_valid [of props tens]
    validateDataIntegrity_errors [of props tens] capacityError_pair [of p n]
  ultimately show ?thesis by blast
qed

theorem validateDataIntegrity_exhaustive_witness:
  "ic_errors (validateDataIntegrity [exampleProperty 1 (ascii ''Sakura'') 1 80000 None]
     [exampleTenant 10 (ascii ''E1'') 1 40000 active, exampleTenant 11 (ascii ''E2'') 1 40000 active])
     = [\<lparr>ie_type = ascii ''CAPACITY_ERROR'',
         ie_message = ascii ''Propiedad '' @ [34] @ ascii ''Sakura'' @ [34]
                      @ ascii '' excede capacidad (2/1)''\<rparr>]
   \<and> \<not> valid (validateDataIntegrity [exampleProperty 1 (ascii ''Sakura'') 1 80000 None]
     [exampleTenant 10 (ascii ''E1'') 1 40000 active, exampleTenant 11 (ascii ''E2'') 1 40000 active])"
proof -
  let ?p = "exampleProperty 1 (ascii ''Sakura'') 1 80000 None"
  let ?ts = "[exampleTenant 10 (ascii ''E1'') 1 40000 active,
              exampleTenant 11 (ascii ''E2'') 1 40000 active]"
  note w = validateDataIntegrity_exhaustive
      [of "[?p]" ?ts "exampleTenant 10 (ascii ''E1'') 1 40000 active" ?p 2]
  have n: "activeCount ?ts ?p = 2"
    by (simp add: activeCount_def exampleProperty_def exampleTenant_def)
  have c: "p_capacity ?p = 1" "p_id ?p = 1" "t_property_id (exampleTenant 10 (ascii ''E1'') 1 40000 active) = 1"
    "t_property_id (exampleTenant 11 (ascii ''E2'') 1 40000 active) = 1"
    by (simp_all add: exampleProperty_def exampleTenant_def)
  have m: "capacityError ?p 2 =
             \<lparr>ie_type = ascii ''CAPACITY_ERROR'',
              ie_message = ascii ''Propiedad '' @ [34] @ ascii ''Sakura'' @ [34]
                           @ ascii '' excede capacidad (2/1)''\<rparr>"
    by (simp add: capacityError_def exampleProperty_def String_of_int_def decimal.simps ascii_def)
  from w have "ic_errors (validateDataIntegrity [?p] ?ts)
      = map fkError (filter (\<lambda>t. t_property_id t \<notin> p_id ` set [?p]) ?ts)
         @ map (\<lambda>p. capacityError p (activeCount ?ts p))
             (filter (\<lambda>p. int (activeCount ?ts p) > p_capacity p) [?p])"
    by (rule conjunct2 [THEN conjunct1])
  also have "\<dots> = [capacityError ?p 2]"
    by (simp add: n c)
  finally have e: "ic_errors (validateDataIntegrity [?p] ?ts) = [capacityError ?p 2]" .
  moreover from w e have "\<not> valid (validateDataIntegrity [?p] ?ts)"
    by simp
  ultimately show ?thesis
    by (simp only: m simp_thms)
qed

text \<open>
  Claim C4. For a property with \<open>rent_price_uns = R\<close> and \<open>N > 0\<close> active tenants,
  \<open>distributeEvenly\<close> succeeds and assigns \<open>R div N + R mod N\<close> to the first tenant and
  \<open>R div N\<close> to every other tenant, in tenant order and changing no other field; the
  assigned contributions sum to \<open>R\<close>, and the first one is any other one plus
  \<open>R mod N\<close>. With \<open>R = 100\<close> and three tenants the contributions are 34, 33, 33.
\<close>

theorem distributeEvenly_remainder_first:
  assumes "activeTenants \<noteq> []"
  shows "\<exists>assigned.
           distributeEvenly property activeTenants = Inr assigned
           \<and> length assigned = length activeTenants
           \<and> t_rent_contribution (assigned ! 0)
               = p_rent_price_uns property div int (length activeTenants)
                 + p_rent_price_uns property mod int (length activeTenants)
           \<and> (\<forall>i. 0 < i \<and> i < length activeTenants \<longrightarrow>
                 t_rent_contribution (assigned ! i)
                   = p_rent_price_uns property div int (length activeTenants)
                 \<and> t_rent_contribution (assigned ! 0)
                   = t_rent_contribution (assigned ! i)
                     + p_rent_price_uns property mod int (length activeTenants))
           \<and> (\<forall>i < length activeTenants.
                 assigned ! i = (activeTenants ! i)
                   \<lparr>t_rent_contribution := t_rent_contribution (assigned ! i)\<rparr>)
           \<and> sum_list (map t_rent_contribution assigned) = p_rent_price_uns property"
proof -
  from assms obtain first others where ts: "activeTenants = first # others"
    by (cases activeTenants) auto
  let ?n = "int (length activeTenants)"
  let ?R = "p_rent_price_uns property"
  define assigned where "assigned = first\<lparr>t_rent_contribution := ?R div ?n + ?R mod ?n\<rparr>
          # map (\<lambda>t. t\<lparr>t_rent_contribution := ?R div ?n\<rparr>) others"
  have d: "distributeEvenly property activeTenants = Inr assigned"
    by (simp add: ts distributeEvenly_Cons assigned_def)
  have len: "length assigned = length activeTenants"
    by (simp add: ts assigned_def)
  have first: "t_rent_contribution (assigned ! 0) = ?R div ?n + ?R mod ?n"
    by (simp add: assigned_def)
  have rest: "t_rent_contribution (assigned ! i) = ?R div ?n"
    if "0 < i \<and> i < length activeTenants" for i
    using that by (cases i) (simp_all add: ts assigned_def)
  have frame: "assigned ! i = (activeTenants ! i)\<lparr>t_rent_contribution := t_rent_contribution (assigned ! i)\<rparr>"
    if "i < length activeTenants" for i
    using that by (cases i) (simp_all add: ts assigned_def)
  have total: "sum_list (map t_rent_contribution assigned) = ?R"
    using distributeEvenly_sum [OF d] .
  have others: "\<forall>i. 0 < i \<and> i < length activeTenants \<longrightarrow>
          t_rent_contribution (assigned ! i) = ?R div ?n
          \<and> t_rent_contribution (assigned ! 0) = t_rent_contribution (assigned ! i) + ?R mod ?n"
    using rest first by simp
  have kept: "\<forall>i < length activeTenants.
      assigned ! i = (activeTenants ! i)\<lparr>t_rent_contribution := t_rent_contribution (assigned ! i)\<rparr>"
    using frame by blast
  show ?thesis
    by (intro exI [of _ assigned] conjI d len first others kept total)
qed

theorem distributeEvenly_remainder_first_witness:
  "[exampleTenant 10 (ascii ''E1'') 1 0 active, exampleTenant 11 (ascii ''E2'') 1 0 active,
    exampleTenant 12 (ascii ''E3'') 1 0 active] \<noteq> []
   \<and> (\<exists>assigned.
        distributeEvenly (exampleProperty 1 (ascii ''Sakura'') 4 100 None)
           [exampleTenant 10 (ascii ''E1'') 1 0 active, exampleTenant 11 (ascii ''E2'') 1 0 active,
            exampleTenant 12 (ascii ''E3'') 1 0 active] = Inr assigned
        \<and> map t_rent_contribution assigned = [34, 33, 33])"
proof -
  let ?ts = "[exampleTenant 10 (ascii ''E1'') 1 0 active, exampleTenant 11 (ascii ''E2'') 1 0 active,
    exampleTenant 12 (ascii ''E3'') 1 0 active]"
  let ?p = "exampleProperty 1 (ascii ''Sakura'') 4 100 None"
  have h: "?ts \<noteq> []" by simp
  have R: "p_rent_price_uns ?p = 100"
    by (simp add: exampleProperty_def)
  from distributeEvenly_remainder_first [OF h, of ?p]
  obtain assigned where a: "distributeEvenly ?p ?ts = Inr assigned"
    and l: "length assigned = length ?ts"
    and f: "t_rent_contribution (assigned ! 0)
              = p_rent_price_uns ?p div int (length ?ts) + p_rent_price_uns ?p mod int (length ?ts)"
    and r: "\<forall>i. 0 < i \<and> i < length ?ts \<longrightarrow>
              t_rent_contribution (assigned ! i) = p_rent_price_uns ?p div int (length ?ts)
              \<and> t_rent_contribution (assigned ! 0)
                  = t_rent_contribution (assigned ! i) + p_rent_price_uns ?p mod int (length ?ts)"
    by blast
  from l obtain x y z where xyz: "assigned = [x, y, z]"
    by (auto simp: length_Suc_conv)
  from f have "t_rent_contribution x = 34"
    by (simp add: xyz R)
  moreover from r [rule_format, of "Suc 0"] have "t_rent_contribution y = 33"
    by (simp add: xyz R)
  moreover from r [rule_format, of "Suc (Suc 0)"] have "t_rent_contribution z = 33"
    by (simp add: xyz R)
  ultimately have "map t_rent_contribution assigned = [34, 33, 33]"
    by (simp add: xyz)
  with a have "\<exists>assigned. distributeEvenly ?p ?ts = Inr assigned
                 \<and> map t_rent_contribution assigned = [34, 33, 33]"
    by (intro exI [of _ assigned] conjI)
  with h show ?thesis
    by (intro conjI)
qed

text \<open>
  Claim C5, as amended. \<open>addEmployees\<close> reports success with the number of candidates;
  the employees of the store stay as they are, in their order, and the candidates whose
  id no employee of the store has are appended (a candidate with an id of the store is
  skipped). Merging the same candidates a second time changes nothing. If the ids of the
  store are pairwise different and the ids of the candidates are pairwise different,
  then after merging twice every id occurs once.
\<close>

theorem addEmployees_first_write_wins:
  "fst (addEmployees es db) = SuccessCount (length es)
   \<and> employees (snd (addEmployees es db))
       = employees db @ filter (\<lambda>emp. e_id emp \<notin> e_id ` set (employees db)) es
   \<and> snd (addEmployees es (snd (addEmployees es db))) = snd (addEmployees es db)
   \<and> (distinct (map e_id (employees db)) \<and> distinct (map e_id es)
      \<longrightarrow> distinct (map e_id (employees (snd (addEmployees es (snd (addEmployees es db)))))))"
proof -
  have "fst (addEmployees es db) = SuccessCount (length es)"
    by (simp add: addEmployees_def)
  moreover note addEmployees_employees [of es db] addEmployees_idem [of es db]
  moreover have "distinct (map e_id (employees (snd (addEmployees es (snd (addEmployees es db))))))"
    if "distinct (map e_id (employees db)) \<and> distinct (map e_id es)"
    using that addEmployees_distinct [of db es] by (simp add: addEmployees_idem)
  ultimately show ?thesis by blast
qed

theorem addEmployees_first_write_wins_witness:
  "distinct (map e_id (employees (exampleDb [] [] [exampleEmployee (ascii ''E1'') (ascii ''Old'')])))
   \<and> distinct (map e_id [exampleEmployee (ascii ''E1'') (ascii ''New''),
                         exampleEmployee (ascii ''E2'') (ascii ''Sato'')])
   \<and> employees (snd (addEmployees
         [exampleEmployee (ascii ''E1'') (ascii ''New''), exampleEmployee (ascii ''E2'') (ascii ''Sato'')]
         (snd (addEmployees
           [exampleEmployee (ascii ''E1'') (ascii ''New''), exampleEmployee (ascii ''E2'') (ascii ''Sato'')]
           (exampleDb [] [] [exampleEmployee (ascii ''E1'') (ascii ''Old'')])))))
       = [exampleEmployee (ascii ''E1'') (ascii ''Old''), exampleEmployee (ascii ''E2'') (ascii ''Sato'')]"
proof -
  let ?db = "exampleDb [] [] [exampleEmployee (ascii ''E1'') (ascii ''Old'')]"
  let ?es = "[exampleEmployee (ascii ''E1'') (ascii ''New''),
              exampleEmployee (ascii ''E2'') (ascii ''Sato'')]"
  have h: "distinct (map e_id (employees ?db)) \<and> distinct (map e_id ?es)"
    by (simp add: exampleDb_def exampleEmployee_def ascii_def)
  have "employees (snd (addEmployees ?es (snd (addEmployees ?es ?db))))
          = employees ?db @ filter (\<lambda>emp. e_id emp \<notin> e_id ` set (employees ?db)) ?es"
    using addEmployees_first_write_wins [of ?es ?db] by simp
  also have "\<dots> = [exampleEmployee (ascii ''E1'') (ascii ''Old''),
                   exampleEmployee (ascii ''E2'') (ascii ''Sato'')]"
    by (simp add: exampleDb_def exampleEmployee_def ascii_def)
  finally show ?thesis using h by simp
qed

text \<open>
  The claim as stated fails when the candidate list itself repeats an id: both copies
  pass the filter, which compares with the store only, and after merging the list twice
  the id occurs twice.
\<close>

theorem addEmployees_duplicate_counterexample:
  "length (filter (\<lambda>e. e_id e = ascii ''E1'')
     (employees (snd (addEmployees
        [exampleEmployee (ascii ''E1'') (ascii ''Sato''), exampleEmployee (ascii ''E1'') (ascii ''Sato'')]
        (snd (addEmployees
          [exampleEmployee (ascii ''E1'') (ascii ''Sato''), exampleEmployee (ascii ''E1'') (ascii ''Sato'')]
          (exampleDb [] [] []))))))) = 2"
  by (simp add: addEmployees_def found_def exampleDb_def exampleEmployee_def INITIAL_DB_def)




text \<open>
  Claim C7. \<open>processFile\<close> decides by the sheet names in a fixed priority. If a sheet
  name contains \<open>Genzai\<close>, \<open>Ukeoi\<close> or the employee marker, the employee pipeline runs,
  whatever other markers are present. Otherwise, if a sheet name contains one of the
  property markers or one of the tenant markers, the rent-management pipeline runs.
  Otherwise the result is a failure without candidates, without errors and with an
  explanatory summary. In every case the call returns a result.
\<close>

theorem processFile_priority:
  "((\<exists>n \<in> set (SheetNames wb).
        includes_js n (ascii ''Genzai'') \<or> includes_js n (ascii ''Ukeoi'') \<or> includes_js n tok_shain)
     \<longrightarrow> processFile eng clk (Read_ok wb) = processEmployeeImport eng wb (SheetNames wb)
         \<and> import_type (processFile eng clk (Read_ok wb)) = Some Employees)
   \<and> (\<not> (\<exists>n \<in> set (SheetNames wb).
        includes_js n (ascii ''Genzai'') \<or> includes_js n (ascii ''Ukeoi'') \<or> includes_js n tok_shain)
      \<and> (\<exists>n \<in> set (SheetNames wb).
            includes_js n tok_kaisharyo_joho \<or> includes_js n tok_bukken
            \<or> includes_js n tok_nyukyosha_ichiran \<or> includes_js n lbl_nyukyo)
     \<longrightarrow> processFile eng clk (Read_ok wb) = processRentImport eng clk wb (SheetNames wb)
         \<and> import_type (processFile eng clk (Read_ok wb)) = Some Rent_management)
   \<and> (\<not> (\<exists>n \<in> set (SheetNames wb).
        includes_js n (ascii ''Genzai'') \<or> includes_js n (ascii ''Ukeoi'') \<or> includes_js n tok_shain
        \<or> includes_js n tok_kaisharyo_joho \<or> includes_js n tok_bukken
        \<or> includes_js n tok_nyukyosha_ichiran \<or> includes_js n lbl_nyukyo)
     \<longrightarrow> processFile eng clk (Read_ok wb) =
           \<lparr>success = False, import_type = None, data = None, errors = [],
            summary = ascii ''No se detect'' @ [0xF3] @ ascii '' formato v'' @ [0xE1]
                      @ ascii ''lido de importaci'' @ [0xF3] @ ascii ''n''\<rparr>)"
proof -
  let ?names = "SheetNames wb"
  have e: "list_ex isEmployeeSheet ?names \<longleftrightarrow> (\<exists>n \<in> set ?names.
        includes_js n (ascii ''Genzai'') \<or> includes_js n (ascii ''Ukeoi'') \<or> includes_js n tok_shain)"
    by (simp add: list_ex_iff isEmployeeSheet_def)
  have p: "list_ex isPropertySheet ?names \<or> list_ex isTenantSheet ?names \<longleftrightarrow>
      (\<exists>n \<in> set ?names. includes_js n tok_kaisharyo_joho \<or> includes_js n tok_bukken
            \<or> includes_js n tok_nyukyosha_ichiran \<or> includes_js n lbl_nyukyo)"
    by (auto simp: list_ex_iff isPropertySheet_def isTenantSheet_def)
  have 1: "processFile eng clk (Read_ok wb) = processEmployeeImport eng wb ?names
           \<and> import_type (processFile eng clk (Read_ok wb)) = Some Employees"
    if "list_ex isEmployeeSheet ?names"
    using that processEmployeeImport_type(1) [OF that, of eng wb]
    by (simp add: processFile_def Let_def)
  have 2: "processFile eng clk (Read_ok wb) = processRentImport eng clk wb ?names
           \<and> import_type (processFile eng clk (Read_ok wb)) = Some Rent_management"
    if "\<not> list_ex isEmployeeSheet ?names"
      and "list_ex isPropertySheet ?names \<or> list_ex isTenantSheet ?names"
    using that by (auto simp: processFile_def Let_def processRentImport_type)
  have 3: "processFile eng clk (Read_ok wb) =
           \<lparr>success = False, import_type = None, data = None, errors = [],
            summary = ascii ''No se detect'' @ [0xF3] @ ascii '' formato v'' @ [0xE1]
                      @ ascii ''lido de importaci'' @ [0xF3] @ ascii ''n''\<rparr>"
    if "\<not> list_ex isEmployeeSheet ?names"
      and "\<not> (list_ex isPropertySheet ?names \<or> list_ex isTenantSheet ?names)"
    using that by (simp add: processFile_def Let_def)
  from 1 2 3 show ?thesis
    unfolding e p by blast
qed


theorem processFile_priority_witness:
  "(\<exists>n \<in> set (SheetNames (exampleWorkbook [tok_bukken, ascii ''Genzai2024''] [] [])).
       includes_js n (ascii ''Genzai'') \<or> includes_js n (ascii ''Ukeoi'') \<or> includes_js n tok_shain)
   \<and> import_type (processFile exampleEngine exampleClock
         (Read_ok (exampleWorkbook [tok_bukken, ascii ''Genzai2024''] [] []))) = Some Employees
   \<and> \<not> (\<exists>n \<in> set (SheetNames (exampleWorkbook [tok_bukken, lbl_nyukyo] [] [])).
       includes_js n (ascii ''Genzai'') \<or> includes_js n (ascii ''Ukeoi'') \<or> includes_js n tok_shain)
   \<and> (\<exists>n \<in> set (SheetNames (exampleWorkbook [tok_bukken, lbl_nyukyo] [] [])).
            includes_js n tok_kaisharyo_joho \<or> includes_js n tok_bukken
            \<or> includes_js n tok_nyukyosha_ichiran \<or> includes_js n lbl_nyukyo)
   \<and> import_type (processFile exampleEngine exampleClock
         (Read_ok (exampleWorkbook [tok_bukken, lbl_nyukyo] [] []))) = Some Rent_management
   \<and> \<not> (\<exists>n \<in> set (SheetNames (exampleWorkbook [ascii ''Sheet1''] [] [])).
        includes_js n (ascii ''Genzai'') \<or> includes_js n (ascii ''Ukeoi'') \<or> includes_js n tok_shain
        \<or> includes_js n tok_kaisharyo_joho \<or> includes_js n tok_bukken
        \<or> includes_js n tok_nyukyosha_ichiran \<or> includes_js n lbl_nyukyo)
   \<and> \<not> success (processFile exampleEngine exampleClock (Read_ok (exampleWorkbook [ascii ''Sheet1''] [] [])))
   \<and> data (processFile exampleEngine exampleClock (Read_ok (exampleWorkbook [ascii ''Sheet1''] [] []))) = None"
proof -
  let ?E = "exampleWorkbook [tok_bukken, ascii ''Genzai2024''] [] []"
  let ?R = "exampleWorkbook [tok_bukken, lbl_nyukyo] [] []"
  let ?U = "exampleWorkbook [ascii ''Sheet1''] [] []"
  have hE: "\<exists>n \<in> set (SheetNames ?E).
       includes_js n (ascii ''Genzai'') \<or> includes_js n (ascii ''Ukeoi'') \<or> includes_js n tok_shain"
    by (simp add: exampleWorkbook_def ascii_def label_defs)
  have hR1: "\<not> (\<exists>n \<in> set (SheetNames ?R).
       includes_js n (ascii ''Genzai'') \<or> includes_js n (ascii ''Ukeoi'') \<or> includes_js n tok_shain)"
    by (simp add: exampleWorkbook_def ascii_def label_defs)
  have hR2: "\<exists>n \<in> set (SheetNames ?R).
            includes_js n tok_kaisharyo_joho \<or> includes_js n tok_bukken
            \<or> includes_js n tok_nyukyosha_ichiran \<or> includes_js n lbl_nyukyo"
    by (simp add: exampleWorkbook_def ascii_def label_defs)
  have hU: "\<not> (\<exists>n \<in> set (SheetNames ?U).
        includes_js n (ascii ''Genzai'') \<or> includes_js n (ascii ''Ukeoi'') \<or> includes_js n tok_shain
        \<or> includes_js n tok_kaisharyo_joho \<or> includes_js n tok_bukken
        \<or> includes_js n tok_nyukyosha_ichiran \<or> includes_js n lbl_nyukyo)"
    by (simp add: exampleWorkbook_def ascii_def label_defs)
  from hE processFile_priority [where wb = ?E and clk = exampleClock and eng = exampleEngine]
  have cE: "import_type (processFile exampleEngine exampleClock (Read_ok ?E)) = Some Employees"
    by blast
  from hR1 hR2 processFile_priority [where wb = ?R and clk = exampleClock and eng = exampleEngine]
  have cR: "import_type (processFile exampleEngine exampleClock (Read_ok ?R)) = Some Rent_management"
    by blast
  from hU processFile_priority [where wb = ?U and clk = exampleClock and eng = exampleEngine]
  have "processFile exampleEngine exampleClock (Read_ok ?U) =
           \<lparr>success = False, import_type = None, data = None, errors = [],
            summary = ascii ''No se detect'' @ [0xF3] @ ascii '' formato v'' @ [0xE1]
                      @ ascii ''lido de importaci'' @ [0xF3] @ ascii ''n''\<rparr>"
    by blast
  then have cU: "\<not> success (processFile exampleEngine exampleClock (Read_ok ?U))"
    "data (processFile exampleEngine exampleClock (Read_ok ?U)) = None"
    by simp_all
  show ?thesis
    by (intro conjI hE cE hR1 hR2 cR hU cU)
qed

text \<open>
  Claim C8. For every store and every property id, \<open>deleteProperty\<close> returns
  \<open>{success: true}\<close>; afterwards no property has that id and no tenant refers to it;
  the properties with another id and the tenants of other properties are kept, in their
  order; the employees, the configuration, the version and the sync stamp are unchanged.
\<close>

theorem deleteProperty_cascade:
  "fst (deleteProperty i db) = Success
   \<and> i \<notin> p_id ` set (properties (snd (deleteProperty i db)))
   \<and> i \<notin> t_property_id ` set (tenants (snd (deleteProperty i db)))
   \<and> properties (snd (deleteProperty i db)) = filter (\<lambda>p. p_id p \<noteq> i) (properties db)
   \<and> tenants (snd (deleteProperty i db)) = filter (\<lambda>t. t_property_id t \<noteq> i) (tenants db)
   \<and> set (properties (snd (deleteProperty i db))) = set (properties db) - {p. p_id p = i}
   \<and> set (tenants (snd (deleteProperty i db))) = set (tenants db) - {t. t_property_id t = i}
   \<and> employees (snd (deleteProperty i db)) = employees db
   \<and> config (snd (deleteProperty i db)) = config db
   \<and> version (snd (deleteProperty i db)) = version db
   \<and> last_sync (snd (deleteProperty i db)) = last_sync db"
  by (auto simp: deleteProperty_def)

text \<open>
  Claim C9. The alerts of type \<open>danger\<close> among the alerts of the dashboard are: the single
  aggregate alert, whose message contains the number of active tenants with
  \<open>rent_contribution = 0\<close>, when there is at least one such tenant, and none otherwise.
\<close>

theorem zero_rent_alert_once:
  "filter (\<lambda>a. a_type a = danger) (alerts (dashboardMetrics parse now stamp db))
     = (if \<exists>t \<in> set (tenants db). t_status t = active \<and> t_rent_contribution t = 0
        then [zeroRentAlert stamp
               (length (filter (\<lambda>t. t_status t = active \<and> t_rent_contribution t = 0)
                          (tenants db)))]
        else [])
   \<and> a_type (zeroRentAlert stamp n) = danger
   \<and> includes_js (msg (zeroRentAlert stamp n)) (String_of_int (int n))"
proof -
  have "zeroRentTenants db \<noteq> []
          \<longleftrightarrow> (\<exists>t \<in> set (tenants db). t_status t = active \<and> t_rent_contribution t = 0)"
    by (auto simp: zeroRentTenants_def filter_empty_conv)
  moreover have "a_type (zeroRentAlert stamp n) = danger"
    by (simp add: zeroRentAlert_def)
  moreover note danger_alerts [of parse now stamp db] zeroRentAlert_count [of stamp n]
  ultimately show ?thesis
    by (simp add: zeroRentTenants_def)
qed

theorem zero_rent_alert_once_witness:
  "map msg (filter (\<lambda>a. a_type a = danger)
     (alerts (dashboardMetrics exampleParse 4102000000000 (ascii ''2099-12-27T00:00:00.000Z'')
        (exampleDb [exampleProperty 1 (ascii ''Sakura'') 4 80000 (Some (ascii ''2099-12-31''))]
           [exampleTenant 10 (ascii ''E1'') 1 0 active, exampleTenant 11 (ascii ''E2'') 1 0 active,
            exampleTenant 12 (ascii ''E3'') 1 0 inactive, exampleTenant 13 (ascii ''E4'') 1 500 active]
           []))))
     = [[0x26A0, 0xFE0F] @ ascii '' 2 inquilino(s) sin renta configurada'']"
proof -
  let ?db = "exampleDb [exampleProperty 1 (ascii ''Sakura'') 4 80000 (Some (ascii ''2099-12-31''))]
           [exampleTenant 10 (ascii ''E1'') 1 0 active, exampleTenant 11 (ascii ''E2'') 1 0 active,
            exampleTenant 12 (ascii ''E3'') 1 0 inactive, exampleTenant 13 (ascii ''E4'') 1 500 active]
           []"
  have t: "tenants ?db = [exampleTenant 10 (ascii ''E1'') 1 0 active, exampleTenant 11 (ascii ''E2'') 1 0 active,
            exampleTenant 12 (ascii ''E3'') 1 0 inactive, exampleTenant 13 (ascii ''E4'') 1 500 active]"
    by (simp add: exampleDb_def)
  have m: "msg (zeroRentAlert (ascii ''2099-12-27T00:00:00.000Z'') 2)
             = [0x26A0, 0xFE0F] @ ascii '' 2 inquilino(s) sin renta configurada''"
    by (simp add: zeroRentAlert_def String_of_int_def decimal.simps ascii_def)
  have ex: "\<exists>t \<in> set (tenants ?db). t_status t = active \<and> t_rent_contribution t = 0"
    unfolding t by (simp add: exampleTenant_def)
  have z: "length (filter (\<lambda>t. t_status t = active \<and> t_rent_contribution t = 0) (tenants ?db)) = 2"
    unfolding t by (simp add: exampleTenant_def)
  from zero_rent_alert_once [of exampleParse 4102000000000 "ascii ''2099-12-27T00:00:00.000Z''" ?db 0]
  have "filter (\<lambda>a. a_type a = danger)
          (alerts (dashboardMetrics exampleParse 4102000000000 (ascii ''2099-12-27T00:00:00.000Z'') ?db))
        = (if \<exists>t \<in> set (tenants ?db). t_status t = active \<and> t_rent_contribution t = 0
           then [zeroRentAlert (ascii ''2099-12-27T00:00:00.000Z'')
                  (length (filter (\<lambda>t. t_status t = active \<and> t_rent_contribution t = 0)
                             (tenants ?db)))]
           else [])"
    by (rule conjunct1)
  also have "\<dots> = [zeroRentAlert (ascii ''2099-12-27T00:00:00.000Z'') 2]"
    using ex by (simp only: z if_True)
  finally show ?thesis
    by (simp only: m list.map)
qed

text \<open>
  Claim C10. \<open>addTenant\<close> is meant to reject a tenant whose employee id an active tenant
  of the store has (the source marks the guard as the check of a unique id), so that no
  two active tenants share an employee id. The guard reads the store of the last render
  and the write appends to the store of the moment: two calls made from one render for
  the same employee both pass the guard, both succeed, and leave two active tenants with
  one employee id.
\<close>

theorem addTenant_stale_snapshot:
  "fst (addTenant (\<lambda>s. True) 1700000000000 (exampleTenant 0 (ascii ''E5'') 1 30000 active)
         (exampleDb [exampleProperty 1 (ascii ''Sakura'') 2 80000 None] [] [])
         (exampleDb [exampleProperty 1 (ascii ''Sakura'') 2 80000 None] [] [])) = Success
   \<and> fst (addTenant (\<lambda>s. True) 1700000000001 (exampleTenant 0 (ascii ''E5'') 1 30000 active)
         (exampleDb [exampleProperty 1 (ascii ''Sakura'') 2 80000 None] [] [])
         (snd (addTenant (\<lambda>s. True) 1700000000000 (exampleTenant 0 (ascii ''E5'') 1 30000 active)
                (exampleDb [exampleProperty 1 (ascii ''Sakura'') 2 80000 None] [] [])
                (exampleDb [exampleProperty 1 (ascii ''Sakura'') 2 80000 None] [] [])))) = Success
   \<and> activeEmployeeIds
        (snd (addTenant (\<lambda>s. True) 1700000000001 (exampleTenant 0 (ascii ''E5'') 1 30000 active)
         (exampleDb [exampleProperty 1 (ascii ''Sakura'') 2 80000 None] [] [])
         (snd (addTenant (\<lambda>s. True) 1700000000000 (exampleTenant 0 (ascii ''E5'') 1 30000 active)
                (exampleDb [exampleProperty 1 (ascii ''Sakura'') 2 80000 None] [] [])
                (exampleDb [exampleProperty 1 (ascii ''Sakura'') 2 80000 None] [] [])))))
       = [ascii ''E5'', ascii ''E5'']"
proof -
  let ?db = "exampleDb [exampleProperty 1 (ascii ''Sakura'') 2 80000 None] [] []"
  let ?new = "exampleTenant 0 (ascii ''E5'') 1 30000 active"
  have guards: "found (\<lambda>p. p_id p = t_property_id ?new) (properties ?db)"
    "\<not> found (\<lambda>t. t_employee_id t = t_employee_id ?new \<and> t_status t = active) (tenants ?db)"
    by (simp_all add: found_def exampleDb_def exampleProperty_def exampleTenant_def)
  have ok: "validateTenant (\<lambda>s. True) (?new\<lparr>t_id := n\<rparr>) = []" for n
    by (simp add: validateTenant_def exampleTenant_def ascii_def)
  have call: "addTenant (\<lambda>s. True) n ?new ?db prev
                = (Success, prev\<lparr>tenants := tenants prev @ [?new\<lparr>t_id := n\<rparr>]\<rparr>)" for n prev
    by (simp add: addTenant_def guards ok)
  have "activeEmployeeIds (?db\<lparr>tenants := tenants ?db @ [?new\<lparr>t_id := 1700000000000\<rparr>]\<rparr>
          \<lparr>tenants := tenants (?db\<lparr>tenants := tenants ?db @ [?new\<lparr>t_id := 1700000000000\<rparr>]\<rparr>)
                       @ [?new\<lparr>t_id := 1700000000001\<rparr>]\<rparr>)
        = [ascii ''E5'', ascii ''E5'']"
    by (simp add: activeEmployeeIds_def exampleDb_def exampleTenant_def)
  then show ?thesis
    by (simp add: call)
qed

end
